theory Spec2Isabelle
  imports Main "HOL-Library.Word"
begin

section \<open>Strings of the page\<close>

text \<open>
  A JavaScript string is a sequence of UTF-16 code units. The literals of
  \<^verbatim>\<open>pages/index/index.js\<close> are written out as their code units.
\<close>

type_synonym code_unit = "16 word"
type_synonym jsstr = "code_unit list"

definition ascii :: "string \<Rightarrow> jsstr" where
  "ascii s = map of_char s"

text \<open>
  \<^verbatim>\<open>String.prototype.trim\<close> strips the WhiteSpace and LineTerminator code
  points of ECMAScript from both ends; all of them lie in the basic plane.
\<close>

definition is_white_space :: "code_unit \<Rightarrow> bool" where
  "is_white_space c \<longleftrightarrow>
     c = 0x0009 \<or> c = 0x000A \<or> c = 0x000B \<or> c = 0x000C \<or> c = 0x000D \<or>
     c = 0x0020 \<or> c = 0x00A0 \<or> c = 0x1680 \<or> (0x2000 \<le> c \<and> c \<le> 0x200A) \<or>
     c = 0x2028 \<or> c = 0x2029 \<or> c = 0x202F \<or> c = 0x205F \<or> c = 0x3000 \<or>
     c = 0xFEFF"

definition trim :: "jsstr \<Rightarrow> jsstr" where
  "trim s = rev (dropWhile is_white_space (rev (dropWhile is_white_space s)))"

text \<open>Decimal rendering of a counter, as a template literal prints it.\<close>

fun digit :: "nat \<Rightarrow> code_unit" where
  "digit n = of_nat (48 + n)"

function dec :: "nat \<Rightarrow> jsstr" where
  "dec n = (if n < 10 then [digit n] else dec (n div 10) @ [digit (n mod 10)])"
  by pat_completeness auto
termination
  by (relation "measure id") auto

declare dec.simps [simp del]

text \<open>
  \<^verbatim>\<open>s || d\<close> on an optional string: \<^verbatim>\<open>undefined\<close> and the empty string are
  both falsy. \<^verbatim>\<open>xs || []\<close> on an optional array: every array is truthy.
\<close>

definition str_or :: "jsstr option \<Rightarrow> jsstr \<Rightarrow> jsstr" where
  "str_or s d = (case s of None \<Rightarrow> d | Some v \<Rightarrow> if v = [] then d else v)"

definition arr_or_empty :: "'a list option \<Rightarrow> 'a list" where
  "arr_or_empty xs = (case xs of None \<Rightarrow> [] | Some v \<Rightarrow> v)"

text \<open>The fixed texts of \<^verbatim>\<open>sendMessage\<close> (lines 75, 96 and 117).\<close>

definition no_match_text :: jsstr where
  "no_match_text =
     [0x62B1, 0x6B49, 0xFF0C, 0x6211, 0x6CA1, 0x6709, 0x627E, 0x5230, 0x5339, 0x914D,
      0x7684, 0x75C7, 0x72B6, 0x3002, 0x8BF7, 0x8BD5, 0x8BD5, 0xFF1A, 0x5934, 0x75DB,
      0x3001, 0x5931, 0x7720, 0x3001, 0x7126, 0x8651, 0x3001, 0x8170, 0x75DB, 0x3001,
      0x9888, 0x690E, 0x7B49, 0x5173, 0x952E, 0x8BCD, 0x3002]"

definition cannot_connect_text :: jsstr where
  "cannot_connect_text =
     [0x65E0, 0x6CD5, 0x8FDE, 0x63A5, 0x670D, 0x52A1, 0x5668, 0xFF0C, 0x8BF7, 0x68C0,
      0x67E5, 0x7F51, 0x7EDC, 0x8FDE, 0x63A5, 0x3002]"

definition title_prefix :: jsstr where
  "title_prefix = [0x9488, 0x5BF9, 0x300C]"

definition title_suffix :: jsstr where
  "title_suffix = [0x300D, 0x63A8, 0x8350, 0x4EE5, 0x4E0B, 0x7A74, 0x4F4D, 0xFF1A]"

section \<open>Data model\<close>

text \<open>
  A recommended point carries its \<^verbatim>\<open>code\<close> and descriptive fields the page
  never reads; they are the type parameter. \<^verbatim>\<open>{...point, images: xs}\<close> adds the
  one field \<^verbatim>\<open>images\<close>.
\<close>

record 'a acupoint =
  code :: jsstr
  info :: 'a

record 'a resolved_point = "'a acupoint" +
  images :: "jsstr list"

definition with_images :: "'a acupoint \<Rightarrow> jsstr list \<Rightarrow> 'a resolved_point" where
  "with_images point imgs = \<lparr>code = code point, info = info point, images = imgs\<rparr>"

datatype msg_kind = Loading | Text | Diagnosis

text \<open>
  The four object shapes that \<^verbatim>\<open>sendMessage\<close> puts into \<^verbatim>\<open>messages\<close>:
  the user's message (no \<^verbatim>\<open>type\<close> field), the loading placeholder, a text
  answer and a diagnosis. \<^verbatim>\<open>llmResponse\<close> is \<^verbatim>\<open>None\<close> when the response had
  no \<^verbatim>\<open>llm_response\<close> (the field is then \<^verbatim>\<open>undefined\<close>).
\<close>

datatype 'a message =
    UserMsg nat jsstr
  | LoadingMsg nat
  | TextMsg nat jsstr
  | DiagnosisMsg nat jsstr "jsstr option" "'a resolved_point list" jsstr

fun msg_id :: "'a message \<Rightarrow> nat" where
  "msg_id (UserMsg i c) = i"
| "msg_id (LoadingMsg i) = i"
| "msg_id (TextMsg i c) = i"
| "msg_id (DiagnosisMsg i t l ps d) = i"

fun isUser :: "'a message \<Rightarrow> bool" where
  "isUser (UserMsg i c) = True"
| "isUser (LoadingMsg i) = False"
| "isUser (TextMsg i c) = False"
| "isUser (DiagnosisMsg i t l ps d) = False"

fun msg_type :: "'a message \<Rightarrow> msg_kind option" where
  "msg_type (UserMsg i c) = None"
| "msg_type (LoadingMsg i) = Some Loading"
| "msg_type (TextMsg i c) = Some Text"
| "msg_type (DiagnosisMsg i t l ps d) = Some Diagnosis"

text \<open>
  \<^verbatim>\<open>this.data\<close> of the page. The counter \<^verbatim>\<open>messageId\<close> is a JavaScript number
  that only ever grows by one from 0; it is exact up to \<open>2 ^ 53\<close> and is modelled
  as a natural number.
\<close>

record 'a page_data =
  messages :: "'a message list"
  inputValue :: jsstr
  sending :: bool
  scrollToView :: jsstr
  messageId :: nat

definition initial_data :: "'a page_data" where
  "initial_data =
     \<lparr>messages = [], inputValue = [], sending = False,
      scrollToView = ascii ''bottom'', messageId = 0\<rparr>"

text \<open>
  The bodies of the two services, with the fields the page reads. A field the
  service may leave out, or that the page guards with \<^verbatim>\<open>||\<close>, is optional.
\<close>

record 'a diagnosis_payload =
  symptom :: jsstr
  acupoints :: "'a acupoint list option"
  disclaimer :: "jsstr option"

record 'a chat_response =
  success :: bool
  message :: "jsstr option"
  mode :: "jsstr option"
  llm_response :: "jsstr option"
  recommended_acupoints :: "'a acupoint list option"
  diagnosis :: "'a diagnosis_payload option"

record image_response =
  image_paths :: "jsstr list option"

section \<open>Network calls\<close>

text \<open>
  \<^verbatim>\<open>wx.request\<close> ends in exactly one of its callbacks: \<^verbatim>\<open>success\<close> with a
  status code and a body, or \<^verbatim>\<open>fail\<close>.
\<close>

datatype 'd wx_result = Success nat 'd | Fail

datatype error = HttpError nat | RequestFailed | TypeError

text \<open>\<^verbatim>\<open>callChatAPI\<close>: only status 200 resolves; anything else rejects.\<close>

definition callChatAPI :: "'d wx_result \<Rightarrow> error + 'd" where
  "callChatAPI r =
     (case r of
        Success statusCode d \<Rightarrow> if statusCode = 200 then Inr d else Inl (HttpError statusCode)
      | Fail \<Rightarrow> Inl RequestFailed)"

text \<open>\<^verbatim>\<open>getImages\<close>: never rejects; a failure resolves to an empty image list.\<close>

definition getImages :: "image_response wx_result \<Rightarrow> error + image_response" where
  "getImages r =
     (case r of
        Success statusCode d \<Rightarrow>
          if statusCode = 200 then Inr d else Inr \<lparr>image_paths = Some []\<rparr>
      | Fail \<Rightarrow> Inr \<lparr>image_paths = Some []\<rparr>)"

section \<open>Image resolution\<close>

text \<open>
  The image service is a function of the position of the request in the loop
  and of the requested code, so that two requests for one code may differ.
\<close>

type_synonym image_service = "nat \<Rightarrow> jsstr \<Rightarrow> image_response wx_result"

text \<open>One turn of the loop of \<^verbatim>\<open>loadAcupointImages\<close>: the \<^verbatim>\<open>try\<close> and its \<^verbatim>\<open>catch\<close>.\<close>

definition resolve_point :: "jsstr \<Rightarrow> image_response wx_result \<Rightarrow> 'a acupoint \<Rightarrow> 'a resolved_point" where
  "resolve_point apiBase r point =
     (case getImages r of
        Inr imgRes \<Rightarrow>
          with_images point
            (map (\<lambda>img. apiBase @ img) (take 6 (arr_or_empty (image_paths imgRes))))
      | Inl e \<Rightarrow> with_images point [])"

fun load_loop ::
  "jsstr \<Rightarrow> image_service \<Rightarrow> nat \<Rightarrow> 'a acupoint list \<Rightarrow> 'a resolved_point list \<Rightarrow> 'a resolved_point list"
where
  "load_loop apiBase net k [] results = results"
| "load_loop apiBase net k (point # rest) results =
     load_loop apiBase net (Suc k) rest
       (results @ [resolve_point apiBase (net k (code point)) point])"

definition loadAcupointImages ::
  "jsstr \<Rightarrow> image_service \<Rightarrow> 'a acupoint list \<Rightarrow> 'a resolved_point list"
where
  "loadAcupointImages apiBase net points = load_loop apiBase net 0 points []"

section \<open>The conversation controller\<close>

text \<open>
  \<^verbatim>\<open>sendMessage\<close> is an \<^verbatim>\<open>async\<close> function: it runs up to its first
  \<^verbatim>\<open>await\<close>, and the rest runs when the diagnosis call has settled. The part
  before the \<^verbatim>\<open>await\<close> is \<open>sendMessage_begin\<close>: \<^verbatim>\<open>None\<close> is the early
  \<^verbatim>\<open>return\<close> of line 37, otherwise it gives the text sent to the service
  (the local \<^verbatim>\<open>message\<close>, here \<open>msg\<close>) and the data after the first
  \<^verbatim>\<open>setData\<close>.
\<close>

definition sendMessage_begin :: "'a page_data \<Rightarrow> (jsstr \<times> 'a page_data) option" where
  "sendMessage_begin d =
     (let msg = trim (inputValue d) in
      if msg = [] \<or> sending d then None
      else
        let msgId = messageId d + 1;
            userMsg = UserMsg msgId msg;
            loadingMsg = LoadingMsg (msgId + 1)
        in Some (msg,
             d\<lparr>messages := messages d @ [userMsg, loadingMsg],
               inputValue := [],
               sending := True,
               messageId := msgId + 1,
               scrollToView := ascii ''msg-'' @ dec (msgId + 1)\<rparr>))"

text \<open>\<^verbatim>\<open>this.data.messages.filter(m => m.type !== 'loading')\<close>\<close>

definition remove_loading :: "'a message list \<Rightarrow> 'a message list" where
  "remove_loading ms = filter (\<lambda>m. msg_type m \<noteq> Some Loading) ms"

text \<open>
  The \<^verbatim>\<open>try\<close> block after the \<^verbatim>\<open>await\<close> (lines 68 to 108). A rejected call
  throws at the \<^verbatim>\<open>await\<close>; reading \<^verbatim>\<open>diagnosis.symptom\<close> of a missing
  \<^verbatim>\<open>diagnosis\<close> throws a \<^verbatim>\<open>TypeError\<close>. Otherwise the block ends in its
  \<^verbatim>\<open>setData\<close>.
\<close>

definition try_block ::
  "jsstr \<Rightarrow> image_service \<Rightarrow> error + 'a chat_response \<Rightarrow> 'a page_data \<Rightarrow> error + 'a page_data"
where
  "try_block apiBase net awaited d =
     (case awaited of
        Inl err \<Rightarrow> Inl err
      | Inr res \<Rightarrow>
          let msgs = remove_loading (messages d) in
          (case
             (if \<not> success res then
                Inr (msgs @ [TextMsg (messageId d + 1) (str_or (message res) no_match_text)])
              else if mode res = Some (ascii ''llm'') then
                Inr (msgs @
                  [DiagnosisMsg (messageId d + 1) [] (llm_response res)
                     (loadAcupointImages apiBase net (arr_or_empty (recommended_acupoints res)))
                     []])
              else
                (case diagnosis res of
                   None \<Rightarrow> Inl TypeError
                 | Some dg \<Rightarrow>
                     Inr (msgs @
                       [DiagnosisMsg (messageId d + 1)
                          (title_prefix @ symptom dg @ title_suffix)
                          (Some [])
                          (loadAcupointImages apiBase net (arr_or_empty (acupoints dg)))
                          (str_or (disclaimer dg) [])])))
           of
             Inl err \<Rightarrow> Inl err
           | Inr msgs' \<Rightarrow>
               Inr (d\<lparr>messages := msgs',
                      messageId := messageId d + 1,
                      scrollToView := ascii ''msg-'' @ dec (messageId d + 1)\<rparr>)))"

text \<open>The \<^verbatim>\<open>catch\<close> block (lines 110 to 123).\<close>

definition catch_block :: "error \<Rightarrow> 'a page_data \<Rightarrow> 'a page_data" where
  "catch_block err d =
     d\<lparr>messages := remove_loading (messages d) @ [TextMsg (messageId d + 1) cannot_connect_text],
       messageId := messageId d + 1\<rparr>"

text \<open>
  The rest of \<^verbatim>\<open>sendMessage\<close> once the diagnosis call has settled, as the list
  of the values of \<^verbatim>\<open>this.data\<close> after each \<^verbatim>\<open>setData\<close>: the one of the
  \<^verbatim>\<open>try\<close> or of the \<^verbatim>\<open>catch\<close>, then the one of line 125. While the images
  load the page data changes only by what the user types, which this part neither
  reads nor writes.
\<close>

definition sendMessage_resume ::
  "jsstr \<Rightarrow> image_service \<Rightarrow> error + 'a chat_response \<Rightarrow> 'a page_data \<Rightarrow> 'a page_data list"
where
  "sendMessage_resume apiBase net awaited d =
     (let d2 = (case try_block apiBase net awaited d of
                  Inr d' \<Rightarrow> d'
                | Inl err \<Rightarrow> catch_block err d)
      in [d2, d2\<lparr>sending := False\<rparr>])"

text \<open>
  A whole run of \<^verbatim>\<open>sendMessage\<close> with nothing in between: the values of
  \<^verbatim>\<open>this.data\<close> after each \<^verbatim>\<open>setData\<close>. The diagnosis service answers the
  text it is sent.
\<close>

definition sendMessage ::
  "jsstr \<Rightarrow> (jsstr \<Rightarrow> 'a chat_response wx_result) \<Rightarrow> image_service \<Rightarrow> 'a page_data \<Rightarrow> 'a page_data list"
where
  "sendMessage apiBase chat net d =
     (case sendMessage_begin d of
        None \<Rightarrow> []
      | Some (msg, d1) \<Rightarrow>
          d1 # sendMessage_resume apiBase net (callChatAPI (chat msg)) d1)"

definition onInputChange :: "jsstr \<Rightarrow> 'a page_data \<Rightarrow> 'a page_data" where
  "onInputChange v d = d\<lparr>inputValue := v\<rparr>"

section \<open>A session of the page\<close>

text \<open>
  The events of a session: the user types, taps a quick symptom, taps send, or
  the pending diagnosis call settles (with the image service that then answers
  the image requests). \<open>inflight\<close> counts the runs of \<^verbatim>\<open>sendMessage\<close> that
  wait at their \<^verbatim>\<open>await\<close>, \<open>requests\<close> lists the texts sent to the diagnosis
  service, and \<open>history\<close> lists every message ever put into the log, in order.
\<close>

datatype 'a event =
    InputChange jsstr
  | QuickTap jsstr
  | SendTap
  | Settled "'a chat_response wx_result" image_service

record 'a session =
  page :: "'a page_data"
  inflight :: nat
  requests :: "jsstr list"
  history :: "'a message list"

definition initial_session :: "'a session" where
  "initial_session = \<lparr>page = initial_data, inflight = 0, requests = [], history = []\<rparr>"

definition start_send :: "'a session \<Rightarrow> 'a session" where
  "start_send s =
     (case sendMessage_begin (page s) of
        None \<Rightarrow> s
      | Some (msg, d1) \<Rightarrow>
          s\<lparr>page := d1,
            inflight := inflight s + 1,
            requests := requests s @ [msg],
            history := history s @ drop (length (messages (page s))) (messages d1)\<rparr>)"

fun step :: "jsstr \<Rightarrow> 'a session \<Rightarrow> 'a event \<Rightarrow> 'a session" where
  "step apiBase s (InputChange v) = s\<lparr>page := onInputChange v (page s)\<rparr>"
| "step apiBase s (QuickTap query) = start_send (s\<lparr>page := (page s)\<lparr>inputValue := query\<rparr>\<rparr>)"
| "step apiBase s SendTap = start_send s"
| "step apiBase s (Settled r net) =
     (if inflight s = 0 then s
      else
        let tr = sendMessage_resume apiBase net (callChatAPI r) (page s) in
        s\<lparr>page := last tr,
          inflight := inflight s - 1,
          history := history s @ [last (messages (last tr))]\<rparr>)"

definition run :: "jsstr \<Rightarrow> 'a event list \<Rightarrow> 'a session" where
  "run apiBase evs = foldl (step apiBase) initial_session evs"

section \<open>Vocabulary of the properties\<close>

text \<open>
  A request fails at the transport level when \<^verbatim>\<open>wx.request\<close> calls \<^verbatim>\<open>fail\<close>
  or answers with a status outside 200 to 299.
\<close>

definition transport_failure :: "'d wx_result \<Rightarrow> bool" where
  "transport_failure r =
     (case r of Fail \<Rightarrow> True | Success statusCode d \<Rightarrow> \<not> (200 \<le> statusCode \<and> statusCode < 300))"

definition has_loading :: "'a message list \<Rightarrow> bool" where
  "has_loading ms = (\<exists>m \<in> set ms. msg_type m = Some Loading)"

subsection \<open>Concrete data for the examples\<close>

definition demo_base :: jsstr where
  "demo_base = ascii ''https://h''"

definition demo_points :: "unit acupoint list" where
  "demo_points =
     [\<lparr>code = ascii ''LI4'', info = ()\<rparr>,
      \<lparr>code = ascii ''GB20'', info = ()\<rparr>,
      \<lparr>code = ascii ''ST36'', info = ()\<rparr>]"

definition ten_paths :: "jsstr list" where
  "ten_paths =
     [ascii ''/0'', ascii ''/1'', ascii ''/2'', ascii ''/3'', ascii ''/4'',
      ascii ''/5'', ascii ''/6'', ascii ''/7'', ascii ''/8'', ascii ''/9'']"

text \<open>An image service whose second request fails and whose others return ten paths.\<close>

definition demo_images :: image_service where
  "demo_images k c = (if k = 1 then Fail else Success 200 \<lparr>image_paths = Some ten_paths\<rparr>)"

text \<open>An image service that answers every request with status 201 and ten paths.\<close>

definition demo_created :: image_service where
  "demo_created k c = Success 201 \<lparr>image_paths = Some ten_paths\<rparr>"

text \<open>A page that waits for an answer to the text \<open>a\<close>, and the page before.\<close>

definition demo_typed :: "unit page_data" where
  "demo_typed = onInputChange (ascii ''a'') initial_data"

definition demo_pending :: "unit page_data" where
  "demo_pending =
     \<lparr>messages = [UserMsg 1 (ascii ''a''), LoadingMsg 2], inputValue = [], sending = True,
      scrollToView = ascii ''msg-2'', messageId = 2\<rparr>"

text \<open>\<^verbatim>\<open>{success: true}\<close>: no mode and no diagnosis object.\<close>

definition demo_no_diagnosis :: "unit chat_response" where
  "demo_no_diagnosis =
     \<lparr>success = True, message = None, mode = None, llm_response = None,
      recommended_acupoints = None, diagnosis = None\<rparr>"

text \<open>\<^verbatim>\<open>{success: false, message: ""}\<close>\<close>

definition demo_empty_message :: "unit chat_response" where
  "demo_empty_message =
     \<lparr>success = False, message = Some [], mode = None, llm_response = None,
      recommended_acupoints = None, diagnosis = None\<rparr>"

text \<open>\<^verbatim>\<open>{success: false}\<close> and \<^verbatim>\<open>{success: false, message: "no"}\<close>\<close>

definition demo_failed :: "unit chat_response" where
  "demo_failed =
     \<lparr>success = False, message = None, mode = None, llm_response = None,
      recommended_acupoints = None, diagnosis = None\<rparr>"

definition demo_refused :: "unit chat_response" where
  "demo_refused =
     \<lparr>success = False, message = Some (ascii ''no''), mode = None, llm_response = None,
      recommended_acupoints = None, diagnosis = None\<rparr>"

text \<open>
  \<^verbatim>\<open>{success: true, mode: "llm", llm_response: "text", recommended_acupoints: [{code: "LI4"}]}\<close>
  and \<^verbatim>\<open>{success: true, diagnosis: {symptom: "ache", acupoints: [{code: "GB20"}], disclaimer: "D"}}\<close>
\<close>

definition demo_llm :: "unit chat_response" where
  "demo_llm =
     \<lparr>success = True, message = None, mode = Some (ascii ''llm''),
      llm_response = Some (ascii ''text''),
      recommended_acupoints = Some [\<lparr>code = ascii ''LI4'', info = ()\<rparr>], diagnosis = None\<rparr>"

definition demo_keyword :: "unit chat_response" where
  "demo_keyword =
     \<lparr>success = True, message = None, mode = None, llm_response = None,
      recommended_acupoints = None,
      diagnosis = Some \<lparr>symptom = ascii ''ache'',
                        acupoints = Some [\<lparr>code = ascii ''GB20'', info = ()\<rparr>],
                        disclaimer = Some (ascii ''D'')\<rparr>\<rparr>"

text \<open>An image service that answers every request with one path.\<close>

definition one_image :: image_service where
  "one_image k c = Success 200 \<lparr>image_paths = Some [ascii ''/p'']\<rparr>"

text \<open>
  The page data after the \<^verbatim>\<open>setData\<close> of the \<^verbatim>\<open>try\<close> block when the answer
  pushed is \<open>t\<close>.
\<close>

definition answered :: "'a message \<Rightarrow> 'a page_data \<Rightarrow> 'a page_data" where
  "answered t d =
     d\<lparr>messages := remove_loading (messages d) @ [t],
       messageId := messageId d + 1,
       scrollToView := ascii ''msg-'' @ dec (messageId d + 1)\<rparr>"

subsection \<open>Log operations and the invariant of a session\<close>

text \<open>
  The operations on the message log in the words of the specification: append a
  message, and remove the loading message, selected by kind. They are compared
  with the arrays that \<^verbatim>\<open>sendMessage\<close> passes to \<^verbatim>\<open>setData\<close>.
\<close>

datatype 'a mutation = Append "'a message" | RemoveLoading

fun apply_mutation :: "'a message list \<Rightarrow> 'a mutation \<Rightarrow> 'a message list" where
  "apply_mutation log (Append m) = log @ [m]"
| "apply_mutation log RemoveLoading = filter (\<lambda>m. msg_type m \<noteq> Some Loading) log"

definition apply_mutations :: "'a mutation list \<Rightarrow> 'a message list \<Rightarrow> 'a message list" where
  "apply_mutations ops log = foldl apply_mutation log ops"

text \<open>
  What holds of every session: the counter bounds every id ever given out, the
  ids were given out in increasing order, every message of the log was appended
  at some time, an idle page shows no loading message, and at most one run of
  \<^verbatim>\<open>sendMessage\<close> waits, exactly when \<^verbatim>\<open>sending\<close> is set.
\<close>

definition session_inv :: "'a session \<Rightarrow> bool" where
  "session_inv s \<longleftrightarrow>
     (\<forall>m \<in> set (history s). msg_id m \<le> messageId (page s)) \<and>
     sorted_wrt (<) (map msg_id (history s)) \<and>
     sorted_wrt (<) (map msg_id (messages (page s))) \<and>
     set (messages (page s)) \<subseteq> set (history s) \<and>
     (\<not> sending (page s) \<longrightarrow> \<not> has_loading (messages (page s))) \<and>
     inflight s = (if sending (page s) then 1 else 0)"

text \<open>
  A session: type \<open>a\<close>, send, the call fails; tap the quick symptom \<open>b\<close>, the
  service answers in \<^verbatim>\<open>llm\<close> mode.
\<close>

definition demo_events :: "unit event list" where
  "demo_events =
     [InputChange (ascii ''a''), SendTap, Settled Fail demo_images,
      QuickTap (ascii ''b''), Settled (Success 200 demo_llm) one_image]"

section \<open>The image resolution adapter\<close>

lemma load_loop_eq:
  "load_loop apiBase net k ps results =
     results @ map (\<lambda>(i, p). resolve_point apiBase (net i (code p)) p) (enumerate k ps)"
  by (induction ps arbitrary: k results) simp_all

lemma loadAcupointImages_eq:
  "loadAcupointImages apiBase net ps =
     map (\<lambda>(i, p). resolve_point apiBase (net i (code p)) p) (enumerate 0 ps)"
  by (simp add: loadAcupointImages_def load_loop_eq)

lemma loadAcupointImages_length: "length (loadAcupointImages apiBase net ps) = length ps"
  by (simp add: loadAcupointImages_eq)

lemma loadAcupointImages_nth:
  "i < length ps \<Longrightarrow>
   loadAcupointImages apiBase net ps ! i = resolve_point apiBase (net i (code (ps ! i))) (ps ! i)"
  by (simp add: loadAcupointImages_eq nth_enumerate_eq)

lemma resolve_point_fields:
  "code (resolve_point apiBase r p) = code p \<and> info (resolve_point apiBase r p) = info p"
  by (simp add: resolve_point_def with_images_def getImages_def split: wx_result.splits sum.splits)

lemma resolve_point_failed:
  "transport_failure r \<Longrightarrow> images (resolve_point apiBase r p) = []"
  by (cases r)
     (auto simp: transport_failure_def resolve_point_def with_images_def getImages_def
        arr_or_empty_def)

lemma resolve_point_ok:
  "images (resolve_point apiBase (Success 200 \<lparr>image_paths = Some paths\<rparr>) p) =
     map (\<lambda>img. apiBase @ img) (take 6 paths)"
  by (simp add: resolve_point_def with_images_def getImages_def arr_or_empty_def)

lemma resolve_point_images:
  "images (resolve_point apiBase r p) =
     (case r of
        Success statusCode body \<Rightarrow>
          if statusCode = 200
          then map (\<lambda>img. apiBase @ img)
                 (take 6 (case image_paths body of None \<Rightarrow> [] | Some v \<Rightarrow> v))
          else []
      | Fail \<Rightarrow> [])"
  by (cases r)
     (simp_all add: resolve_point_def with_images_def getImages_def arr_or_empty_def)

lemma take6_ten_paths:
  "take 6 ten_paths =
     [ascii ''/0'', ascii ''/1'', ascii ''/2'', ascii ''/3'', ascii ''/4'', ascii ''/5'']"
  by (simp add: ten_paths_def)

text \<open>
  C4. \<^verbatim>\<open>loadAcupointImages\<close> returns, for every list of points, a list of the same
  length; the point at each position keeps its code and its descriptive fields,
  and its images are decided by the answer to its own request alone: the first
  six paths at most, prefixed, when the answer has status 200, and none otherwise.
  So a request that fails (transport error or a status that is not 2xx) leaves
  that point with no images, and every other point keeps the images of its own
  answer, whatever happens to the other requests. The function has no failing
  result: every turn of its loop is inside \<^verbatim>\<open>try\<close>/\<^verbatim>\<open>catch\<close>.
\<close>

theorem resolve_total:
  "length (loadAcupointImages apiBase net ps) = length ps \<and>
   (\<forall>i<length ps.
      code (loadAcupointImages apiBase net ps ! i) = code (ps ! i) \<and>
      info (loadAcupointImages apiBase net ps ! i) = info (ps ! i) \<and>
      images (loadAcupointImages apiBase net ps ! i) =
        (case net i (code (ps ! i)) of
           Success statusCode body \<Rightarrow>
             if statusCode = 200
             then map (\<lambda>img. apiBase @ img)
                    (take 6 (case image_paths body of None \<Rightarrow> [] | Some v \<Rightarrow> v))
             else []
         | Fail \<Rightarrow> []) \<and>
      (transport_failure (net i (code (ps ! i))) \<longrightarrow>
         images (loadAcupointImages apiBase net ps ! i) = []) \<and>
      (\<forall>net'. net' i (code (ps ! i)) = net i (code (ps ! i)) \<longrightarrow>
         loadAcupointImages apiBase net' ps ! i = loadAcupointImages apiBase net ps ! i))"
proof (intro conjI allI impI)
  show "length (loadAcupointImages apiBase net ps) = length ps"
    by (rule loadAcupointImages_length)
next
  fix i assume "i < length ps"
  then show "code (loadAcupointImages apiBase net ps ! i) = code (ps ! i)"
    by (simp add: loadAcupointImages_nth resolve_point_fields)
next
  fix i assume "i < length ps"
  then show "info (loadAcupointImages apiBase net ps ! i) = info (ps ! i)"
    by (simp add: loadAcupointImages_nth resolve_point_fields)
next
  fix i assume "i < length ps"
  then show "images (loadAcupointImages apiBase net ps ! i) =
        (case net i (code (ps ! i)) of
           Success statusCode body \<Rightarrow>
             if statusCode = 200
             then map (\<lambda>img. apiBase @ img)
                    (take 6 (case image_paths body of None \<Rightarrow> [] | Some v \<Rightarrow> v))
             else []
         | Fail \<Rightarrow> [])"
    by (simp only: loadAcupointImages_nth resolve_point_images)
next
  fix i assume "i < length ps" and "transport_failure (net i (code (ps ! i)))"
  then show "images (loadAcupointImages apiBase net ps ! i) = []"
    by (simp add: loadAcupointImages_nth resolve_point_failed)
next
  fix i net'
  assume "i < length ps" and "net' i (code (ps ! i)) = net i (code (ps ! i))"
  then show "loadAcupointImages apiBase net' ps ! i = loadAcupointImages apiBase net ps ! i"
    by (simp add: loadAcupointImages_nth)
qed

theorem resolve_total_witness:
  "length (loadAcupointImages demo_base demo_images demo_points) = 3 \<and>
   code (loadAcupointImages demo_base demo_images demo_points ! 0) = ascii ''LI4'' \<and>
   code (loadAcupointImages demo_base demo_images demo_points ! 1) = ascii ''GB20'' \<and>
   code (loadAcupointImages demo_base demo_images demo_points ! 2) = ascii ''ST36'' \<and>
   transport_failure (demo_images 1 (code (demo_points ! 1))) \<and>
   images (loadAcupointImages demo_base demo_images demo_points ! 0) =
     map (\<lambda>img. demo_base @ img)
       [ascii ''/0'', ascii ''/1'', ascii ''/2'', ascii ''/3'', ascii ''/4'', ascii ''/5''] \<and>
   images (loadAcupointImages demo_base demo_images demo_points ! 1) = [] \<and>
   images (loadAcupointImages demo_base demo_images demo_points ! 2) =
     map (\<lambda>img. demo_base @ img)
       [ascii ''/0'', ascii ''/1'', ascii ''/2'', ascii ''/3'', ascii ''/4'', ascii ''/5'']"
proof -
  have len: "length demo_points = 3"
    by (simp add: demo_points_def)
  have pt: "code (demo_points ! 0) = ascii ''LI4''" "code (demo_points ! 1) = ascii ''GB20''"
    "code (demo_points ! 2) = ascii ''ST36''"
    by (simp_all add: demo_points_def)
  have failed: "transport_failure (demo_images 1 (code (demo_points ! 1)))"
    by (simp add: demo_images_def transport_failure_def)
  note main = resolve_total [of demo_base demo_images demo_points]
  from main have l': "length (loadAcupointImages demo_base demo_images demo_points) =
      length demo_points"
    by (rule conjunct1)
  from l' len have l: "length (loadAcupointImages demo_base demo_images demo_points) = 3"
    by simp
  from main have c: "\<And>i. i < 3 \<Longrightarrow>
      code (loadAcupointImages demo_base demo_images demo_points ! i) = code (demo_points ! i)"
    unfolding len by blast
  from main have g: "\<And>i. i < 3 \<Longrightarrow>
      images (loadAcupointImages demo_base demo_images demo_points ! i) =
        (case demo_images i (code (demo_points ! i)) of
           Success statusCode body \<Rightarrow>
             if statusCode = 200
             then map (\<lambda>img. demo_base @ img)
                    (take 6 (case image_paths body of None \<Rightarrow> [] | Some v \<Rightarrow> v))
             else []
         | Fail \<Rightarrow> [])"
    unfolding len by blast
  have g0: "images (loadAcupointImages demo_base demo_images demo_points ! 0) =
     map (\<lambda>img. demo_base @ img)
       [ascii ''/0'', ascii ''/1'', ascii ''/2'', ascii ''/3'', ascii ''/4'', ascii ''/5'']"
    using g [of 0] by (simp add: demo_images_def take6_ten_paths)
  have g1: "images (loadAcupointImages demo_base demo_images demo_points ! 1) = []"
    using g [of 1] by (simp add: demo_images_def)
  have g2: "images (loadAcupointImages demo_base demo_images demo_points ! 2) =
     map (\<lambda>img. demo_base @ img)
       [ascii ''/0'', ascii ''/1'', ascii ''/2'', ascii ''/3'', ascii ''/4'', ascii ''/5'']"
    using g [of 2] by (simp add: demo_images_def take6_ten_paths)
  have c0: "code (loadAcupointImages demo_base demo_images demo_points ! 0) = ascii ''LI4''"
    using c [of 0] pt by simp
  have c1: "code (loadAcupointImages demo_base demo_images demo_points ! 1) = ascii ''GB20''"
    using c [of 1] pt by simp
  have c2: "code (loadAcupointImages demo_base demo_images demo_points ! 2) = ascii ''ST36''"
    using c [of 2] pt by simp
  show ?thesis
    by (intro conjI) (rule l c0 c1 c2 failed g0 g1 g2)+
qed

text \<open>
  C5 (as amended). When the request for the point at a position is answered with
  status 200 and a list of \<open>n\<close> paths, the resolved point's images are the first
  six of them at most, in the order of the answer, each prefixed with the API
  base: \<open>min n 6\<close> entries. When it is answered with any other status, another
  2xx status included, the point has no images (\<^verbatim>\<open>getImages\<close> tests
  \<^verbatim>\<open>statusCode === 200\<close>): the counterexample is an answer with status 201.
\<close>

theorem image_cap:
  "i < length ps \<Longrightarrow>
   net i (code (ps ! i)) = Success statusCode \<lparr>image_paths = Some paths\<rparr> \<Longrightarrow>
   (statusCode = 200 \<longrightarrow>
      images (loadAcupointImages apiBase net ps ! i) = map (\<lambda>img. apiBase @ img) (take 6 paths) \<and>
      length (images (loadAcupointImages apiBase net ps ! i)) = min (length paths) 6) \<and>
   (statusCode \<noteq> 200 \<longrightarrow> images (loadAcupointImages apiBase net ps ! i) = [])"
  by (simp add: loadAcupointImages_nth resolve_point_images min.commute)

theorem image_cap_witness:
  "0 < length demo_points \<and>
   demo_images 0 (code (demo_points ! 0)) = Success 200 \<lparr>image_paths = Some ten_paths\<rparr> \<and>
   demo_created 0 (code (demo_points ! 0)) = Success 201 \<lparr>image_paths = Some ten_paths\<rparr> \<and>
   length ten_paths = 10 \<and>
   images (loadAcupointImages demo_base demo_images demo_points ! 0) =
     map (\<lambda>img. demo_base @ img)
       [ascii ''/0'', ascii ''/1'', ascii ''/2'', ascii ''/3'', ascii ''/4'', ascii ''/5''] \<and>
   length (images (loadAcupointImages demo_base demo_images demo_points ! 0)) = 6 \<and>
   images (loadAcupointImages demo_base demo_created demo_points ! 0) = []"
proof -
  have len: "0 < length demo_points"
    by (simp add: demo_points_def)
  have ok: "demo_images 0 (code (demo_points ! 0)) = Success 200 \<lparr>image_paths = Some ten_paths\<rparr>"
    by (simp add: demo_images_def)
  have cr: "demo_created 0 (code (demo_points ! 0)) = Success 201 \<lparr>image_paths = Some ten_paths\<rparr>"
    by (simp add: demo_created_def)
  have n: "length ten_paths = 10"
    by (simp add: ten_paths_def)
  note main = image_cap [of 0 demo_points demo_images 200 ten_paths demo_base, OF len ok]
  note other = image_cap [of 0 demo_points demo_created 201 ten_paths demo_base, OF len cr]
  from main have a: "images (loadAcupointImages demo_base demo_images demo_points ! 0) =
     map (\<lambda>img. demo_base @ img) (take 6 ten_paths)"
    by simp
  from main have b: "length (images (loadAcupointImages demo_base demo_images demo_points ! 0)) =
     min (length ten_paths) 6"
    by simp
  from other have c: "images (loadAcupointImages demo_base demo_created demo_points ! 0) = []"
    by simp
  from b n have b': "length (images (loadAcupointImages demo_base demo_images demo_points ! 0)) = 6"
    by simp
  from a have a': "images (loadAcupointImages demo_base demo_images demo_points ! 0) =
     map (\<lambda>img. demo_base @ img)
       [ascii ''/0'', ascii ''/1'', ascii ''/2'', ascii ''/3'', ascii ''/4'', ascii ''/5'']"
    by (simp only: take6_ten_paths)
  show ?thesis
    by (intro conjI) (rule len ok cr n a' b' c)+
qed

theorem image_cap_counterexample:
  "0 < length demo_points \<and>
   demo_created 0 (code (demo_points ! 0)) = Success 201 \<lparr>image_paths = Some ten_paths\<rparr> \<and>
   \<not> transport_failure (demo_created 0 (code (demo_points ! 0))) \<and>
   length ten_paths = 10 \<and>
   images (loadAcupointImages demo_base demo_created demo_points ! 0) = [] \<and>
   length (images (loadAcupointImages demo_base demo_created demo_points ! 0)) \<noteq>
     min (length ten_paths) 6"
proof -
  have len: "0 < length demo_points"
    by (simp add: demo_points_def)
  have cr: "demo_created 0 (code (demo_points ! 0)) = Success 201 \<lparr>image_paths = Some ten_paths\<rparr>"
    by (simp add: demo_created_def)
  have nf: "\<not> transport_failure (demo_created 0 (code (demo_points ! 0)))"
    by (simp add: demo_created_def transport_failure_def)
  have n: "length ten_paths = 10"
    by (simp add: ten_paths_def)
  have e: "images (loadAcupointImages demo_base demo_created demo_points ! 0) = []"
    by (simp add: loadAcupointImages_nth [OF len] resolve_point_images cr)
  from e n have ne: "length (images (loadAcupointImages demo_base demo_created demo_points ! 0)) \<noteq>
     min (length ten_paths) 6"
    by simp
  show ?thesis
    by (intro conjI) (rule len cr nf n e ne)+
qed

section \<open>The branches of \<^verbatim>\<open>sendMessage\<close>\<close>

lemma begin_None: "trim (inputValue d) = [] \<or> sending d \<Longrightarrow> sendMessage_begin d = None"
  by (simp add: sendMessage_begin_def Let_def)

lemma begin_Some:
  "trim (inputValue d) \<noteq> [] \<Longrightarrow> \<not> sending d \<Longrightarrow>
   sendMessage_begin d =
     Some (trim (inputValue d),
       d\<lparr>messages := messages d @
            [UserMsg (messageId d + 1) (trim (inputValue d)), LoadingMsg (messageId d + 2)],
         inputValue := [], sending := True, messageId := messageId d + 2,
         scrollToView := ascii ''msg-'' @ dec (messageId d + 2)\<rparr>)"
  by (simp add: sendMessage_begin_def Let_def)

lemma begin_SomeD:
  assumes "sendMessage_begin d = Some (msg, d1)"
  shows "trim (inputValue d) \<noteq> []" and "\<not> sending d" and "msg = trim (inputValue d)"
    and "d1 = d\<lparr>messages := messages d @ [UserMsg (messageId d + 1) msg, LoadingMsg (messageId d + 2)],
         inputValue := [], sending := True, messageId := messageId d + 2,
         scrollToView := ascii ''msg-'' @ dec (messageId d + 2)\<rparr>"
proof -
  show a: "trim (inputValue d) \<noteq> []"
    using assms begin_None [of d] by auto
  show b: "\<not> sending d"
    using assms begin_None [of d] by auto
  from begin_Some [OF a b] assms show "msg = trim (inputValue d)"
    by simp
  from begin_Some [OF a b] assms
  show "d1 = d\<lparr>messages := messages d @ [UserMsg (messageId d + 1) msg, LoadingMsg (messageId d + 2)],
         inputValue := [], sending := True, messageId := messageId d + 2,
         scrollToView := ascii ''msg-'' @ dec (messageId d + 2)\<rparr>"
    by simp
qed

lemma callChatAPI_rejects: "transport_failure r \<Longrightarrow> \<exists>e. callChatAPI r = Inl e"
  by (cases r) (auto simp: transport_failure_def callChatAPI_def)

lemma callChatAPI_200: "callChatAPI (Success 200 res) = Inr res"
  by (simp add: callChatAPI_def)

lemma try_block_rejected: "try_block apiBase net (Inl e) d = Inl e"
  by (simp add: try_block_def)

lemma try_block_soft:
  "\<not> success res \<Longrightarrow>
   try_block apiBase net (Inr res) d =
     Inr (d\<lparr>messages := remove_loading (messages d) @
                [TextMsg (messageId d + 1) (str_or (message res) no_match_text)],
            messageId := messageId d + 1,
            scrollToView := ascii ''msg-'' @ dec (messageId d + 1)\<rparr>)"
  by (simp add: try_block_def Let_def)

lemma try_block_llm:
  "success res \<Longrightarrow> mode res = Some (ascii ''llm'') \<Longrightarrow>
   try_block apiBase net (Inr res) d =
     Inr (d\<lparr>messages := remove_loading (messages d) @
                [DiagnosisMsg (messageId d + 1) [] (llm_response res)
                   (loadAcupointImages apiBase net (arr_or_empty (recommended_acupoints res))) []],
            messageId := messageId d + 1,
            scrollToView := ascii ''msg-'' @ dec (messageId d + 1)\<rparr>)"
  by (simp add: try_block_def Let_def)

lemma try_block_keyword:
  "success res \<Longrightarrow> mode res \<noteq> Some (ascii ''llm'') \<Longrightarrow> diagnosis res = Some dg \<Longrightarrow>
   try_block apiBase net (Inr res) d =
     Inr (d\<lparr>messages := remove_loading (messages d) @
                [DiagnosisMsg (messageId d + 1) (title_prefix @ symptom dg @ title_suffix) (Some [])
                   (loadAcupointImages apiBase net (arr_or_empty (acupoints dg)))
                   (str_or (disclaimer dg) [])],
            messageId := messageId d + 1,
            scrollToView := ascii ''msg-'' @ dec (messageId d + 1)\<rparr>)"
  by (simp add: try_block_def Let_def)

lemma try_block_missing:
  "success res \<Longrightarrow> mode res \<noteq> Some (ascii ''llm'') \<Longrightarrow> diagnosis res = None \<Longrightarrow>
   try_block apiBase net (Inr res) d = Inl TypeError"
  by (simp add: try_block_def Let_def)

lemma resume_Inl:
  "try_block apiBase net awaited d = Inl e \<Longrightarrow>
   sendMessage_resume apiBase net awaited d =
     [catch_block e d, (catch_block e d)\<lparr>sending := False\<rparr>]"
  by (simp add: sendMessage_resume_def Let_def)

lemma resume_Inr:
  "try_block apiBase net awaited d = Inr d' \<Longrightarrow>
   sendMessage_resume apiBase net awaited d = [d', d'\<lparr>sending := False\<rparr>]"
  by (simp add: sendMessage_resume_def Let_def)

lemma settle_cases:
  obtains (ok) d' where "try_block apiBase net awaited d = Inr d'"
     and "sendMessage_resume apiBase net awaited d = [d', d'\<lparr>sending := False\<rparr>]"
   | (thrown) e where "try_block apiBase net awaited d = Inl e"
     and "sendMessage_resume apiBase net awaited d =
            [catch_block e d, (catch_block e d)\<lparr>sending := False\<rparr>]"
  by (cases "try_block apiBase net awaited d") (auto simp: resume_Inl resume_Inr)

text \<open>Whenever the \<^verbatim>\<open>try\<close> block reaches its \<^verbatim>\<open>setData\<close>, it has pushed one answer.\<close>

lemma try_block_Inr:
  assumes "try_block apiBase net awaited d = Inr d'"
  shows "\<exists>t. d' = d\<lparr>messages := remove_loading (messages d) @ [t],
            messageId := messageId d + 1,
            scrollToView := ascii ''msg-'' @ dec (messageId d + 1)\<rparr> \<and>
           msg_id t = messageId d + 1 \<and> \<not> isUser t \<and>
           (msg_type t = Some Text \<or> msg_type t = Some Diagnosis)"
proof (cases awaited)
  case (Inl e)
  with assms show ?thesis
    by (simp add: try_block_rejected)
next
  case (Inr res)
  show ?thesis
  proof (cases "success res")
    case False
    from try_block_soft [OF False, of apiBase net d] assms Inr show ?thesis
      by auto
  next
    case True
    show ?thesis
    proof (cases "mode res = Some (ascii ''llm'')")
      case llm: True
      from try_block_llm [OF True llm, of apiBase net d] assms Inr show ?thesis
        by auto
    next
      case kw: False
      show ?thesis
      proof (cases "diagnosis res")
        case None
        from try_block_missing [OF True kw None, of apiBase net d] assms Inr show ?thesis
          by simp
      next
        case (Some dg)
        from try_block_keyword [OF True kw Some, of apiBase net d] assms Inr show ?thesis
          by auto
      qed
    qed
  qed
qed

text \<open>Every way through the \<^verbatim>\<open>try\<close> and the \<^verbatim>\<open>catch\<close> has the same shape.\<close>

lemma resume_shape:
  "\<exists>t d2. sendMessage_resume apiBase net awaited d = [d2, d2\<lparr>sending := False\<rparr>] \<and>
     messages d2 = remove_loading (messages d) @ [t] \<and>
     messageId d2 = messageId d + 1 \<and> sending d2 = sending d \<and>
     inputValue d2 = inputValue d \<and>
     msg_id t = messageId d + 1 \<and> \<not> isUser t \<and>
     (msg_type t = Some Text \<or> msg_type t = Some Diagnosis)"
proof (cases rule: settle_cases [of apiBase net awaited d])
  case (ok d')
  from try_block_Inr [OF ok(1)] obtain t where
    "d' = d\<lparr>messages := remove_loading (messages d) @ [t],
            messageId := messageId d + 1,
            scrollToView := ascii ''msg-'' @ dec (messageId d + 1)\<rparr>"
    and "msg_id t = messageId d + 1" and "\<not> isUser t"
    and "msg_type t = Some Text \<or> msg_type t = Some Diagnosis"
    by blast
  with ok(2) show ?thesis
    by simp
next
  case (thrown e)
  then show ?thesis
    by (simp add: catch_block_def)
qed

lemma resume_rejected:
  "sendMessage_resume apiBase net (Inl e) d =
     [d\<lparr>messages := remove_loading (messages d) @ [TextMsg (messageId d + 1) cannot_connect_text],
        messageId := messageId d + 1\<rparr>,
      d\<lparr>messages := remove_loading (messages d) @ [TextMsg (messageId d + 1) cannot_connect_text],
        messageId := messageId d + 1, sending := False\<rparr>]"
  by (simp add: resume_Inl [OF try_block_rejected] catch_block_def)

lemma resume_missing:
  "success res \<Longrightarrow> mode res \<noteq> Some (ascii ''llm'') \<Longrightarrow> diagnosis res = None \<Longrightarrow>
   sendMessage_resume apiBase net (Inr res) d =
     [d\<lparr>messages := remove_loading (messages d) @ [TextMsg (messageId d + 1) cannot_connect_text],
        messageId := messageId d + 1\<rparr>,
      d\<lparr>messages := remove_loading (messages d) @ [TextMsg (messageId d + 1) cannot_connect_text],
        messageId := messageId d + 1, sending := False\<rparr>]"
  by (simp add: resume_Inl [OF try_block_missing] catch_block_def)

lemma not_has_loading_answer:
  "msg_type t \<noteq> Some Loading \<Longrightarrow> \<not> has_loading (remove_loading ms @ [t])"
  by (simp add: has_loading_def remove_loading_def)

lemma demo_begin: "sendMessage_begin demo_typed = Some (ascii ''a'', demo_pending)"
  by (simp add: sendMessage_begin_def demo_typed_def demo_pending_def onInputChange_def
      initial_data_def trim_def is_white_space_def ascii_def dec.simps Let_def)

lemma demo_remove_loading: "remove_loading (messages demo_pending) = [UserMsg 1 (ascii ''a'')]"
  by (simp add: remove_loading_def demo_pending_def)

section \<open>Guard and finalization\<close>

text \<open>
  C2. When the trimmed input is empty or a submission is pending, \<^verbatim>\<open>sendMessage\<close>
  returns at once: it performs no \<^verbatim>\<open>setData\<close>, and the session is unchanged,
  that is every field of the page data, the number of calls in flight, the
  requests sent to the diagnosis service and the messages ever appended.
\<close>

theorem guard_noop:
  "trim (inputValue (page s)) = [] \<or> sending (page s) \<Longrightarrow>
   sendMessage_begin (page s) = None \<and>
   sendMessage apiBase chat net (page s) = [] \<and>
   step apiBase s SendTap = s"
  by (simp add: begin_None sendMessage_def start_send_def)

theorem guard_noop_witness:
  "(trim (inputValue (page (initial_session :: unit session))) = [] \<or>
      sending (page (initial_session :: unit session))) \<and>
   step demo_base (initial_session :: unit session) SendTap = initial_session"
proof -
  have h: "trim (inputValue (page (initial_session :: unit session))) = [] \<or>
      sending (page (initial_session :: unit session))"
    by (simp add: initial_session_def initial_data_def trim_def)
  from guard_noop [OF h, of demo_base] h show ?thesis
    by blast
qed

text \<open>
  C3. After an accepted submission, however the diagnosis call settles (rejected,
  soft failure, either mode, or an exception while the answer is processed) and
  whatever the user types while it is pending, \<^verbatim>\<open>sending\<close> stays true until
  the last \<^verbatim>\<open>setData\<close>, which clears it, and a later submission of any text
  that is not blank is accepted.
\<close>

theorem finalization:
  "sendMessage_begin d = Some (msg, d1) \<Longrightarrow>
   map sending (d1 # sendMessage_resume apiBase net awaited (onInputChange typed d1)) =
     [True, True, False] \<and>
   (trim v \<noteq> [] \<longrightarrow>
      sendMessage_begin (onInputChange v
        (last (sendMessage_resume apiBase net awaited (onInputChange typed d1)))) \<noteq> None)"
proof -
  assume b: "sendMessage_begin d = Some (msg, d1)"
  from begin_SomeD(4) [OF b] have s1: "sending d1"
    by simp
  from resume_shape [of apiBase net awaited "onInputChange typed d1"] obtain t d2 where
    tr: "sendMessage_resume apiBase net awaited (onInputChange typed d1) =
           [d2, d2\<lparr>sending := False\<rparr>]"
    and s2: "sending d2 = sending (onInputChange typed d1)"
    by blast
  have "trim v \<noteq> [] \<longrightarrow> sendMessage_begin (onInputChange v (d2\<lparr>sending := False\<rparr>)) \<noteq> None"
    by (simp add: begin_Some onInputChange_def)
  with tr s1 s2 show ?thesis
    by (simp add: onInputChange_def)
qed

theorem finalization_witness:
  "sendMessage_begin demo_typed = Some (ascii ''a'', demo_pending) \<and>
   map sending (demo_pending #
     sendMessage_resume demo_base demo_images (Inl RequestFailed)
       (onInputChange (ascii ''c'') demo_pending)) = [True, True, False] \<and>
   trim (ascii ''b'') \<noteq> [] \<and>
   sendMessage_begin (onInputChange (ascii ''b'')
      (last (sendMessage_resume demo_base demo_images (Inl RequestFailed)
         (onInputChange (ascii ''c'') demo_pending)))) \<noteq> None"
proof -
  have t: "trim (ascii ''b'') \<noteq> []"
    by (simp add: trim_def ascii_def is_white_space_def)
  from finalization [OF demo_begin, of demo_base demo_images "Inl RequestFailed" "ascii ''c''" "ascii ''b''"]
    t demo_begin
  show ?thesis
    by blast
qed

section \<open>Failure paths\<close>

text \<open>
  C8. When the diagnosis call fails at the transport level (\<^verbatim>\<open>fail\<close>, or a status
  that is not 2xx), the loading message is removed, one text message with the
  fixed cannot-connect text is appended, and \<^verbatim>\<open>sending\<close> is cleared.
\<close>

theorem transport_failure_path:
  "transport_failure r \<Longrightarrow>
   sendMessage_resume apiBase net (callChatAPI r) d =
     [d\<lparr>messages := remove_loading (messages d) @ [TextMsg (messageId d + 1) cannot_connect_text],
        messageId := messageId d + 1\<rparr>,
      d\<lparr>messages := remove_loading (messages d) @ [TextMsg (messageId d + 1) cannot_connect_text],
        messageId := messageId d + 1, sending := False\<rparr>] \<and>
   \<not> has_loading (remove_loading (messages d) @ [TextMsg (messageId d + 1) cannot_connect_text])"
proof -
  assume "transport_failure r"
  from callChatAPI_rejects [OF this] obtain e where "callChatAPI r = Inl e"
    by blast
  then show ?thesis
    by (simp add: resume_rejected not_has_loading_answer)
qed

theorem transport_failure_path_witness:
  "transport_failure (Fail :: unit chat_response wx_result) \<and>
   sendMessage_resume demo_base demo_images (callChatAPI Fail) demo_pending =
     [\<lparr>messages = [UserMsg 1 (ascii ''a''), TextMsg 3 cannot_connect_text], inputValue = [],
       sending = True, scrollToView = ascii ''msg-2'', messageId = 3\<rparr>,
      \<lparr>messages = [UserMsg 1 (ascii ''a''), TextMsg 3 cannot_connect_text], inputValue = [],
       sending = False, scrollToView = ascii ''msg-2'', messageId = 3\<rparr>]"
proof -
  have f: "transport_failure (Fail :: unit chat_response wx_result)"
    by (simp add: transport_failure_def)
  from transport_failure_path [OF f, of demo_base demo_images demo_pending] f
  show ?thesis
    by (simp add: demo_remove_loading) (simp add: demo_pending_def)
qed

text \<open>
  C10. A response with \<^verbatim>\<open>success\<close> true, a mode other than \<^verbatim>\<open>llm\<close> and no
  \<^verbatim>\<open>diagnosis\<close> object takes the \<^verbatim>\<open>catch\<close> path: the loading message is
  removed, the fixed cannot-connect text is appended, \<^verbatim>\<open>sending\<close> is cleared,
  and the next submission is accepted.
\<close>

theorem missing_diagnosis:
  "success res \<Longrightarrow> mode res \<noteq> Some (ascii ''llm'') \<Longrightarrow> diagnosis res = None \<Longrightarrow>
   sendMessage_resume apiBase net (callChatAPI (Success 200 res)) d =
     [d\<lparr>messages := remove_loading (messages d) @ [TextMsg (messageId d + 1) cannot_connect_text],
        messageId := messageId d + 1\<rparr>,
      d\<lparr>messages := remove_loading (messages d) @ [TextMsg (messageId d + 1) cannot_connect_text],
        messageId := messageId d + 1, sending := False\<rparr>] \<and>
   \<not> has_loading (remove_loading (messages d) @ [TextMsg (messageId d + 1) cannot_connect_text]) \<and>
   (trim v \<noteq> [] \<longrightarrow>
      sendMessage_begin (onInputChange v
        (last (sendMessage_resume apiBase net (callChatAPI (Success 200 res)) d))) \<noteq> None)"
  by (simp add: callChatAPI_200 resume_missing not_has_loading_answer begin_Some onInputChange_def)

theorem missing_diagnosis_witness:
  "success demo_no_diagnosis \<and> mode demo_no_diagnosis \<noteq> Some (ascii ''llm'') \<and>
   diagnosis demo_no_diagnosis = None \<and>
   sendMessage_resume demo_base demo_images (callChatAPI (Success 200 demo_no_diagnosis)) demo_pending =
     [\<lparr>messages = [UserMsg 1 (ascii ''a''), TextMsg 3 cannot_connect_text], inputValue = [],
       sending = True, scrollToView = ascii ''msg-2'', messageId = 3\<rparr>,
      \<lparr>messages = [UserMsg 1 (ascii ''a''), TextMsg 3 cannot_connect_text], inputValue = [],
       sending = False, scrollToView = ascii ''msg-2'', messageId = 3\<rparr>]"
proof -
  have a: "success demo_no_diagnosis"
    and b: "mode demo_no_diagnosis \<noteq> Some (ascii ''llm'')"
    and c: "diagnosis demo_no_diagnosis = None"
    by (simp_all add: demo_no_diagnosis_def)
  from missing_diagnosis [OF a b c, of demo_base demo_images demo_pending] a b c
  show ?thesis
    by (simp add: demo_remove_loading) (simp add: demo_pending_def)
qed

section \<open>Answers of the diagnosis service\<close>

lemma str_or_nonempty: "dflt \<noteq> [] \<Longrightarrow> str_or s dflt \<noteq> []"
  by (simp add: str_or_def split: option.splits)

lemma no_match_text_nonempty: "no_match_text \<noteq> []"
  by (simp add: no_match_text_def)

lemma resume_soft:
  "\<not> success res \<Longrightarrow>
   sendMessage_resume apiBase net (Inr res) d =
     [answered (TextMsg (messageId d + 1) (str_or (message res) no_match_text)) d,
      (answered (TextMsg (messageId d + 1) (str_or (message res) no_match_text)) d)
        \<lparr>sending := False\<rparr>]"
  by (simp add: resume_Inr [OF try_block_soft] answered_def)

lemma resume_llm:
  "success res \<Longrightarrow> mode res = Some (ascii ''llm'') \<Longrightarrow>
   sendMessage_resume apiBase net (Inr res) d =
     [answered (DiagnosisMsg (messageId d + 1) [] (llm_response res)
        (loadAcupointImages apiBase net (arr_or_empty (recommended_acupoints res))) []) d,
      (answered (DiagnosisMsg (messageId d + 1) [] (llm_response res)
        (loadAcupointImages apiBase net (arr_or_empty (recommended_acupoints res))) []) d)
        \<lparr>sending := False\<rparr>]"
  by (simp add: resume_Inr [OF try_block_llm] answered_def)

lemma resume_keyword:
  "success res \<Longrightarrow> mode res \<noteq> Some (ascii ''llm'') \<Longrightarrow> diagnosis res = Some dg \<Longrightarrow>
   sendMessage_resume apiBase net (Inr res) d =
     [answered (DiagnosisMsg (messageId d + 1) (title_prefix @ symptom dg @ title_suffix) (Some [])
        (loadAcupointImages apiBase net (arr_or_empty (acupoints dg)))
        (str_or (disclaimer dg) [])) d,
      (answered (DiagnosisMsg (messageId d + 1) (title_prefix @ symptom dg @ title_suffix) (Some [])
        (loadAcupointImages apiBase net (arr_or_empty (acupoints dg)))
        (str_or (disclaimer dg) [])) d)
        \<lparr>sending := False\<rparr>]"
  by (simp add: resume_Inr [OF try_block_keyword] answered_def)

lemma str_or_empty: "str_or s [] = (case s of None \<Rightarrow> [] | Some v \<Rightarrow> v)"
  by (simp add: str_or_def split: option.splits)

lemma answered_demo:
  "answered t demo_pending =
     \<lparr>messages = [UserMsg 1 (ascii ''a''), t], inputValue = [], sending = True,
      scrollToView = ascii ''msg-3'', messageId = 3\<rparr>"
  by (simp add: answered_def demo_remove_loading) (simp add: demo_pending_def ascii_def dec.simps)

lemma load_one:
  "loadAcupointImages demo_base one_image [p] =
     [\<lparr>code = code p, info = info p, images = [demo_base @ ascii ''/p'']\<rparr>]"
  by (simp add: loadAcupointImages_def resolve_point_def getImages_def one_image_def
      with_images_def arr_or_empty_def)

lemma callChatAPI_other:
  "statusCode \<noteq> 200 \<Longrightarrow> callChatAPI (Success statusCode res) = Inl (HttpError statusCode)"
  by (simp add: callChatAPI_def)

lemma resume_other_status:
  "statusCode \<noteq> 200 \<Longrightarrow>
   sendMessage_resume apiBase net (callChatAPI (Success statusCode res)) d =
     [d\<lparr>messages := remove_loading (messages d) @
                [TextMsg (messageId d + 1) cannot_connect_text],
            messageId := messageId d + 1\<rparr>,
          d\<lparr>messages := remove_loading (messages d) @
                [TextMsg (messageId d + 1) cannot_connect_text],
            messageId := messageId d + 1, sending := False\<rparr>]"
  by (simp add: callChatAPI_other resume_rejected)

lemma cannot_connect_not_no: "cannot_connect_text \<noteq> ascii ''no''"
  by (simp add: cannot_connect_text_def ascii_def)

text \<open>
  C7 (as amended). When the response arrives with status 200 and has
  \<^verbatim>\<open>success\<close> false, the answer appended is a text message of the assistant
  whose content is the message of the response when there is one and it is not the
  empty string, and the fixed fallback text when the message is absent or empty;
  the content is never empty. A body that arrives with any other status is not
  read, whatever it holds: the answer is the fixed cannot-connect text. (An empty
  message is falsy for \<^verbatim>\<open>||\<close>, and \<^verbatim>\<open>callChatAPI\<close> rejects every status
  other than 200: the counterexample shows both.)
\<close>

theorem soft_failure:
  "\<not> success res \<Longrightarrow>
   (statusCode = 200 \<longrightarrow>
      sendMessage_resume apiBase net (callChatAPI (Success statusCode res)) d =
        [answered (TextMsg (messageId d + 1)
           (case message res of None \<Rightarrow> no_match_text
            | Some m \<Rightarrow> if m = [] then no_match_text else m)) d,
         (answered (TextMsg (messageId d + 1)
           (case message res of None \<Rightarrow> no_match_text
            | Some m \<Rightarrow> if m = [] then no_match_text else m)) d)\<lparr>sending := False\<rparr>] \<and>
      (case message res of None \<Rightarrow> no_match_text
       | Some m \<Rightarrow> if m = [] then no_match_text else m) \<noteq> []) \<and>
   (statusCode \<noteq> 200 \<longrightarrow>
      sendMessage_resume apiBase net (callChatAPI (Success statusCode res)) d =
        [d\<lparr>messages := remove_loading (messages d) @
                [TextMsg (messageId d + 1) cannot_connect_text],
            messageId := messageId d + 1\<rparr>,
          d\<lparr>messages := remove_loading (messages d) @
                [TextMsg (messageId d + 1) cannot_connect_text],
            messageId := messageId d + 1, sending := False\<rparr>])"
proof (intro conjI impI)
  assume f: "\<not> success res" and ok: "statusCode = 200"
  have eq: "str_or (message res) no_match_text =
     (case message res of None \<Rightarrow> no_match_text
      | Some m \<Rightarrow> if m = [] then no_match_text else m)"
    by (simp add: str_or_def)
  from resume_soft [OF f, of apiBase net d]
  show "sendMessage_resume apiBase net (callChatAPI (Success statusCode res)) d =
        [answered (TextMsg (messageId d + 1)
           (case message res of None \<Rightarrow> no_match_text
            | Some m \<Rightarrow> if m = [] then no_match_text else m)) d,
         (answered (TextMsg (messageId d + 1)
           (case message res of None \<Rightarrow> no_match_text
            | Some m \<Rightarrow> if m = [] then no_match_text else m)) d)\<lparr>sending := False\<rparr>]"
    unfolding eq ok callChatAPI_200 by simp
  from str_or_nonempty [OF no_match_text_nonempty, of "message res"]
  show "(case message res of None \<Rightarrow> no_match_text
       | Some m \<Rightarrow> if m = [] then no_match_text else m) \<noteq> []"
    unfolding eq by simp
next
  assume "statusCode \<noteq> 200"
  then show "sendMessage_resume apiBase net (callChatAPI (Success statusCode res)) d =
        [d\<lparr>messages := remove_loading (messages d) @
                [TextMsg (messageId d + 1) cannot_connect_text],
            messageId := messageId d + 1\<rparr>,
          d\<lparr>messages := remove_loading (messages d) @
                [TextMsg (messageId d + 1) cannot_connect_text],
            messageId := messageId d + 1, sending := False\<rparr>]"
    by (rule resume_other_status)
qed

theorem soft_failure_witness:
  "\<not> success demo_failed \<and> \<not> success demo_refused \<and>
   sendMessage_resume demo_base demo_images (callChatAPI (Success 200 demo_failed)) demo_pending =
     [\<lparr>messages = [UserMsg 1 (ascii ''a''), TextMsg 3 no_match_text], inputValue = [],
       sending = True, scrollToView = ascii ''msg-3'', messageId = 3\<rparr>,
      \<lparr>messages = [UserMsg 1 (ascii ''a''), TextMsg 3 no_match_text], inputValue = [],
       sending = False, scrollToView = ascii ''msg-3'', messageId = 3\<rparr>] \<and>
   sendMessage_resume demo_base demo_images (callChatAPI (Success 200 demo_refused)) demo_pending =
     [\<lparr>messages = [UserMsg 1 (ascii ''a''), TextMsg 3 (ascii ''no'')], inputValue = [],
       sending = True, scrollToView = ascii ''msg-3'', messageId = 3\<rparr>,
      \<lparr>messages = [UserMsg 1 (ascii ''a''), TextMsg 3 (ascii ''no'')], inputValue = [],
       sending = False, scrollToView = ascii ''msg-3'', messageId = 3\<rparr>] \<and>
   sendMessage_resume demo_base demo_images (callChatAPI (Success 500 demo_failed)) demo_pending =
     [\<lparr>messages = [UserMsg 1 (ascii ''a''), TextMsg 3 cannot_connect_text], inputValue = [],
       sending = True, scrollToView = ascii ''msg-2'', messageId = 3\<rparr>,
      \<lparr>messages = [UserMsg 1 (ascii ''a''), TextMsg 3 cannot_connect_text], inputValue = [],
       sending = False, scrollToView = ascii ''msg-2'', messageId = 3\<rparr>]"
proof -
  have a: "\<not> success demo_failed" and a': "message demo_failed = None"
    by (simp_all add: demo_failed_def)
  have b: "\<not> success demo_refused" and b': "message demo_refused = Some (ascii ''no'')"
    by (simp_all add: demo_refused_def)
  have id: "messageId demo_pending = 2"
    by (simp add: demo_pending_def)
  have ne: "ascii ''no'' \<noteq> []"
    by (simp add: ascii_def)
  from soft_failure [OF a, of 200 demo_base demo_images demo_pending]
  have r1: "sendMessage_resume demo_base demo_images (callChatAPI (Success 200 demo_failed)) demo_pending =
     [\<lparr>messages = [UserMsg 1 (ascii ''a''), TextMsg 3 no_match_text], inputValue = [],
       sending = True, scrollToView = ascii ''msg-3'', messageId = 3\<rparr>,
      \<lparr>messages = [UserMsg 1 (ascii ''a''), TextMsg 3 no_match_text], inputValue = [],
       sending = False, scrollToView = ascii ''msg-3'', messageId = 3\<rparr>]"
    by (simp add: a' id answered_demo)
  from soft_failure [OF b, of 200 demo_base demo_images demo_pending]
  have r2: "sendMessage_resume demo_base demo_images (callChatAPI (Success 200 demo_refused)) demo_pending =
     [\<lparr>messages = [UserMsg 1 (ascii ''a''), TextMsg 3 (ascii ''no'')], inputValue = [],
       sending = True, scrollToView = ascii ''msg-3'', messageId = 3\<rparr>,
      \<lparr>messages = [UserMsg 1 (ascii ''a''), TextMsg 3 (ascii ''no'')], inputValue = [],
       sending = False, scrollToView = ascii ''msg-3'', messageId = 3\<rparr>]"
    by (simp add: b' id ne answered_demo)
  from soft_failure [OF a, of 500 demo_base demo_images demo_pending]
  have r3: "sendMessage_resume demo_base demo_images (callChatAPI (Success 500 demo_failed)) demo_pending =
     [\<lparr>messages = [UserMsg 1 (ascii ''a''), TextMsg 3 cannot_connect_text], inputValue = [],
       sending = True, scrollToView = ascii ''msg-2'', messageId = 3\<rparr>,
      \<lparr>messages = [UserMsg 1 (ascii ''a''), TextMsg 3 cannot_connect_text], inputValue = [],
       sending = False, scrollToView = ascii ''msg-2'', messageId = 3\<rparr>]"
    by (simp add: demo_remove_loading) (simp add: demo_pending_def)
  show ?thesis
    by (intro conjI) (rule a b r1 r2 r3)+
qed

theorem soft_failure_counterexample:
  "\<not> success demo_empty_message \<and> message demo_empty_message = Some [] \<and>
   last (messages (last (sendMessage_resume demo_base demo_images
     (callChatAPI (Success 200 demo_empty_message)) demo_pending))) = TextMsg 3 no_match_text \<and>
   no_match_text \<noteq> [] \<and>
   \<not> success demo_refused \<and> message demo_refused = Some (ascii ''no'') \<and>
   last (messages (last (sendMessage_resume demo_base demo_images
     (callChatAPI (Success 404 demo_refused)) demo_pending))) = TextMsg 3 cannot_connect_text \<and>
   cannot_connect_text \<noteq> ascii ''no''"
proof -
  have a: "\<not> success demo_empty_message" and b: "message demo_empty_message = Some []"
    by (simp_all add: demo_empty_message_def)
  have c: "\<not> success demo_refused" and e: "message demo_refused = Some (ascii ''no'')"
    by (simp_all add: demo_refused_def)
  have id: "messageId demo_pending = 2"
    by (simp add: demo_pending_def)
  have r1: "last (messages (last (sendMessage_resume demo_base demo_images
     (callChatAPI (Success 200 demo_empty_message)) demo_pending))) = TextMsg 3 no_match_text"
    by (simp add: b callChatAPI_200 resume_soft [OF a] answered_demo id str_or_def)
  have r2: "last (messages (last (sendMessage_resume demo_base demo_images
     (callChatAPI (Success 404 demo_refused)) demo_pending))) = TextMsg 3 cannot_connect_text"
    by (simp add: resume_other_status id)
  show ?thesis
    by (intro conjI) (rule a b c e r1 r2 no_match_text_nonempty cannot_connect_not_no)+
qed

text \<open>
  C6 (as amended). When the response arrives with status 200, has \<^verbatim>\<open>success\<close>
  true and its mode is \<^verbatim>\<open>llm\<close>, the answer appended is a diagnosis message with
  the free text of the response, empty title and disclaimer, and the points
  resolved from \<^verbatim>\<open>recommended_acupoints\<close> (none when absent). When the mode is
  anything else or absent and the response carries a \<^verbatim>\<open>diagnosis\<close> object, the
  answer is a diagnosis message whose title is built around the symptom, whose
  points are resolved from the acupoints of the object (none when absent) and
  whose disclaimer is the one of the object (empty when absent). A body that
  arrives with any other status is not read: the answer is the fixed
  cannot-connect text. Without the \<^verbatim>\<open>diagnosis\<close> object, or on a status such as
  201, the answer is no diagnosis message: the counterexample.
\<close>

theorem mode_branching:
  "success res \<Longrightarrow>
   (mode res = Some (ascii ''llm'') \<longrightarrow>
      sendMessage_resume apiBase net (callChatAPI (Success 200 res)) d =
        [answered (DiagnosisMsg (messageId d + 1) [] (llm_response res)
           (loadAcupointImages apiBase net
              (case recommended_acupoints res of None \<Rightarrow> [] | Some ps \<Rightarrow> ps)) []) d,
         (answered (DiagnosisMsg (messageId d + 1) [] (llm_response res)
           (loadAcupointImages apiBase net
              (case recommended_acupoints res of None \<Rightarrow> [] | Some ps \<Rightarrow> ps)) []) d)
           \<lparr>sending := False\<rparr>]) \<and>
   (mode res \<noteq> Some (ascii ''llm'') \<longrightarrow>
      (\<forall>dg. diagnosis res = Some dg \<longrightarrow>
         sendMessage_resume apiBase net (callChatAPI (Success 200 res)) d =
           [answered (DiagnosisMsg (messageId d + 1) (title_prefix @ symptom dg @ title_suffix)
              (Some [])
              (loadAcupointImages apiBase net
                 (case acupoints dg of None \<Rightarrow> [] | Some ps \<Rightarrow> ps))
              (case disclaimer dg of None \<Rightarrow> [] | Some v \<Rightarrow> v)) d,
            (answered (DiagnosisMsg (messageId d + 1) (title_prefix @ symptom dg @ title_suffix)
              (Some [])
              (loadAcupointImages apiBase net
                 (case acupoints dg of None \<Rightarrow> [] | Some ps \<Rightarrow> ps))
              (case disclaimer dg of None \<Rightarrow> [] | Some v \<Rightarrow> v)) d)
              \<lparr>sending := False\<rparr>])) \<and>
   (statusCode \<noteq> 200 \<longrightarrow>
      sendMessage_resume apiBase net (callChatAPI (Success statusCode res)) d =
        [d\<lparr>messages := remove_loading (messages d) @
                [TextMsg (messageId d + 1) cannot_connect_text],
            messageId := messageId d + 1\<rparr>,
          d\<lparr>messages := remove_loading (messages d) @
                [TextMsg (messageId d + 1) cannot_connect_text],
            messageId := messageId d + 1, sending := False\<rparr>])"
proof (intro conjI impI allI)
  assume s: "success res" and m: "mode res = Some (ascii ''llm'')"
  from resume_llm [OF s m, of apiBase net d]
  show "sendMessage_resume apiBase net (callChatAPI (Success 200 res)) d =
        [answered (DiagnosisMsg (messageId d + 1) [] (llm_response res)
           (loadAcupointImages apiBase net
              (case recommended_acupoints res of None \<Rightarrow> [] | Some ps \<Rightarrow> ps)) []) d,
         (answered (DiagnosisMsg (messageId d + 1) [] (llm_response res)
           (loadAcupointImages apiBase net
              (case recommended_acupoints res of None \<Rightarrow> [] | Some ps \<Rightarrow> ps)) []) d)
           \<lparr>sending := False\<rparr>]"
    by (simp add: callChatAPI_200 arr_or_empty_def)
next
  fix dg
  assume s: "success res" and m: "mode res \<noteq> Some (ascii ''llm'')"
    and dg: "diagnosis res = Some dg"
  from resume_keyword [OF s m dg, of apiBase net d]
  show "sendMessage_resume apiBase net (callChatAPI (Success 200 res)) d =
           [answered (DiagnosisMsg (messageId d + 1) (title_prefix @ symptom dg @ title_suffix)
              (Some [])
              (loadAcupointImages apiBase net
                 (case acupoints dg of None \<Rightarrow> [] | Some ps \<Rightarrow> ps))
              (case disclaimer dg of None \<Rightarrow> [] | Some v \<Rightarrow> v)) d,
            (answered (DiagnosisMsg (messageId d + 1) (title_prefix @ symptom dg @ title_suffix)
              (Some [])
              (loadAcupointImages apiBase net
                 (case acupoints dg of None \<Rightarrow> [] | Some ps \<Rightarrow> ps))
              (case disclaimer dg of None \<Rightarrow> [] | Some v \<Rightarrow> v)) d)
              \<lparr>sending := False\<rparr>]"
    by (simp add: callChatAPI_200 arr_or_empty_def str_or_empty)
next
  assume "statusCode \<noteq> 200"
  then show "sendMessage_resume apiBase net (callChatAPI (Success statusCode res)) d =
        [d\<lparr>messages := remove_loading (messages d) @
                [TextMsg (messageId d + 1) cannot_connect_text],
            messageId := messageId d + 1\<rparr>,
          d\<lparr>messages := remove_loading (messages d) @
                [TextMsg (messageId d + 1) cannot_connect_text],
            messageId := messageId d + 1, sending := False\<rparr>]"
    by (rule resume_other_status)
qed

theorem mode_branching_witness:
  "success demo_llm \<and> mode demo_llm = Some (ascii ''llm'') \<and>
   sendMessage_resume demo_base one_image (callChatAPI (Success 200 demo_llm)) demo_pending =
     [\<lparr>messages = [UserMsg 1 (ascii ''a''),
         DiagnosisMsg 3 [] (Some (ascii ''text''))
           [\<lparr>code = ascii ''LI4'', info = (), images = [demo_base @ ascii ''/p'']\<rparr>] []],
       inputValue = [], sending = True, scrollToView = ascii ''msg-3'', messageId = 3\<rparr>,
      \<lparr>messages = [UserMsg 1 (ascii ''a''),
         DiagnosisMsg 3 [] (Some (ascii ''text''))
           [\<lparr>code = ascii ''LI4'', info = (), images = [demo_base @ ascii ''/p'']\<rparr>] []],
       inputValue = [], sending = False, scrollToView = ascii ''msg-3'', messageId = 3\<rparr>] \<and>
   success demo_keyword \<and> mode demo_keyword \<noteq> Some (ascii ''llm'') \<and>
   sendMessage_resume demo_base one_image (callChatAPI (Success 200 demo_keyword)) demo_pending =
     [\<lparr>messages = [UserMsg 1 (ascii ''a''),
         DiagnosisMsg 3 (title_prefix @ ascii ''ache'' @ title_suffix) (Some [])
           [\<lparr>code = ascii ''GB20'', info = (), images = [demo_base @ ascii ''/p'']\<rparr>]
           (ascii ''D'')],
       inputValue = [], sending = True, scrollToView = ascii ''msg-3'', messageId = 3\<rparr>,
      \<lparr>messages = [UserMsg 1 (ascii ''a''),
         DiagnosisMsg 3 (title_prefix @ ascii ''ache'' @ title_suffix) (Some [])
           [\<lparr>code = ascii ''GB20'', info = (), images = [demo_base @ ascii ''/p'']\<rparr>]
           (ascii ''D'')],
       inputValue = [], sending = False, scrollToView = ascii ''msg-3'', messageId = 3\<rparr>] \<and>
   sendMessage_resume demo_base one_image (callChatAPI (Success 201 demo_llm)) demo_pending =
     [\<lparr>messages = [UserMsg 1 (ascii ''a''), TextMsg 3 cannot_connect_text], inputValue = [],
       sending = True, scrollToView = ascii ''msg-2'', messageId = 3\<rparr>,
      \<lparr>messages = [UserMsg 1 (ascii ''a''), TextMsg 3 cannot_connect_text], inputValue = [],
       sending = False, scrollToView = ascii ''msg-2'', messageId = 3\<rparr>]"
proof -
  have a: "success demo_llm" and a': "mode demo_llm = Some (ascii ''llm'')"
    and a'': "llm_response demo_llm = Some (ascii ''text'')"
      "recommended_acupoints demo_llm = Some [\<lparr>code = ascii ''LI4'', info = ()\<rparr>]"
    by (simp_all add: demo_llm_def)
  have b: "success demo_keyword" and b': "mode demo_keyword \<noteq> Some (ascii ''llm'')"
    and b'': "diagnosis demo_keyword = Some \<lparr>symptom = ascii ''ache'',
                        acupoints = Some [\<lparr>code = ascii ''GB20'', info = ()\<rparr>],
                        disclaimer = Some (ascii ''D'')\<rparr>"
    by (simp_all add: demo_keyword_def)
  have id: "messageId demo_pending = 2"
    by (simp add: demo_pending_def)
  from mode_branching [OF a, of demo_base one_image demo_pending]
    mode_branching [OF b, of demo_base one_image demo_pending] a b a' b'
  have w: "success demo_llm \<and> mode demo_llm = Some (ascii ''llm'') \<and>
   sendMessage_resume demo_base one_image (callChatAPI (Success 200 demo_llm)) demo_pending =
     [\<lparr>messages = [UserMsg 1 (ascii ''a''),
         DiagnosisMsg 3 [] (Some (ascii ''text''))
           [\<lparr>code = ascii ''LI4'', info = (), images = [demo_base @ ascii ''/p'']\<rparr>] []],
       inputValue = [], sending = True, scrollToView = ascii ''msg-3'', messageId = 3\<rparr>,
      \<lparr>messages = [UserMsg 1 (ascii ''a''),
         DiagnosisMsg 3 [] (Some (ascii ''text''))
           [\<lparr>code = ascii ''LI4'', info = (), images = [demo_base @ ascii ''/p'']\<rparr>] []],
       inputValue = [], sending = False, scrollToView = ascii ''msg-3'', messageId = 3\<rparr>] \<and>
   success demo_keyword \<and> mode demo_keyword \<noteq> Some (ascii ''llm'') \<and>
   sendMessage_resume demo_base one_image (callChatAPI (Success 200 demo_keyword)) demo_pending =
     [\<lparr>messages = [UserMsg 1 (ascii ''a''),
         DiagnosisMsg 3 (title_prefix @ ascii ''ache'' @ title_suffix) (Some [])
           [\<lparr>code = ascii ''GB20'', info = (), images = [demo_base @ ascii ''/p'']\<rparr>]
           (ascii ''D'')],
       inputValue = [], sending = True, scrollToView = ascii ''msg-3'', messageId = 3\<rparr>,
      \<lparr>messages = [UserMsg 1 (ascii ''a''),
         DiagnosisMsg 3 (title_prefix @ ascii ''ache'' @ title_suffix) (Some [])
           [\<lparr>code = ascii ''GB20'', info = (), images = [demo_base @ ascii ''/p'']\<rparr>]
           (ascii ''D'')],
       inputValue = [], sending = False, scrollToView = ascii ''msg-3'', messageId = 3\<rparr>]"
    by (simp add: a'' b'' id answered_demo load_one)
  from mode_branching [OF a, of demo_base one_image demo_pending 201]
  have r: "sendMessage_resume demo_base one_image (callChatAPI (Success 201 demo_llm)) demo_pending =
     [\<lparr>messages = [UserMsg 1 (ascii ''a''), TextMsg 3 cannot_connect_text], inputValue = [],
       sending = True, scrollToView = ascii ''msg-2'', messageId = 3\<rparr>,
      \<lparr>messages = [UserMsg 1 (ascii ''a''), TextMsg 3 cannot_connect_text], inputValue = [],
       sending = False, scrollToView = ascii ''msg-2'', messageId = 3\<rparr>]"
    by (simp add: demo_remove_loading) (simp add: demo_pending_def)
  from w r show ?thesis
    by blast
qed

theorem mode_branching_counterexample:
  "success demo_no_diagnosis \<and>
   last (messages (last (sendMessage_resume demo_base demo_images
     (callChatAPI (Success 200 demo_no_diagnosis)) demo_pending))) = TextMsg 3 cannot_connect_text \<and>
   msg_type (last (messages (last (sendMessage_resume demo_base demo_images
     (callChatAPI (Success 200 demo_no_diagnosis)) demo_pending)))) \<noteq> Some Diagnosis \<and>
   success demo_llm \<and> mode demo_llm = Some (ascii ''llm'') \<and>
   \<not> transport_failure (Success 201 demo_llm) \<and>
   last (messages (last (sendMessage_resume demo_base one_image
     (callChatAPI (Success 201 demo_llm)) demo_pending))) = TextMsg 3 cannot_connect_text \<and>
   msg_type (last (messages (last (sendMessage_resume demo_base one_image
     (callChatAPI (Success 201 demo_llm)) demo_pending)))) \<noteq> Some Diagnosis"
proof -
  have a: "success demo_no_diagnosis"
    and b: "mode demo_no_diagnosis \<noteq> Some (ascii ''llm'')"
    and c: "diagnosis demo_no_diagnosis = None"
    by (simp_all add: demo_no_diagnosis_def)
  have l: "success demo_llm" and m: "mode demo_llm = Some (ascii ''llm'')"
    by (simp_all add: demo_llm_def)
  have nf: "\<not> transport_failure (Success 201 demo_llm)"
    by (simp add: transport_failure_def)
  have id: "messageId demo_pending = 2"
    by (simp add: demo_pending_def)
  have r1: "last (messages (last (sendMessage_resume demo_base demo_images
     (callChatAPI (Success 200 demo_no_diagnosis)) demo_pending))) = TextMsg 3 cannot_connect_text"
    by (simp add: callChatAPI_200 resume_missing [OF a b c] id)
  have r2: "last (messages (last (sendMessage_resume demo_base one_image
     (callChatAPI (Success 201 demo_llm)) demo_pending))) = TextMsg 3 cannot_connect_text"
    by (simp add: resume_other_status id)
  from r1 have t1: "msg_type (last (messages (last (sendMessage_resume demo_base demo_images
     (callChatAPI (Success 200 demo_no_diagnosis)) demo_pending)))) \<noteq> Some Diagnosis"
    by simp
  from r2 have t2: "msg_type (last (messages (last (sendMessage_resume demo_base one_image
     (callChatAPI (Success 201 demo_llm)) demo_pending)))) \<noteq> Some Diagnosis"
    by simp
  show ?thesis
    by (intro conjI) (rule a l m nf r1 r2 t1 t2)+
qed

section \<open>Sessions\<close>

lemma remove_loading_append:
  "remove_loading (xs @ ys) = remove_loading xs @ remove_loading ys"
  by (simp add: remove_loading_def)

lemma remove_loading_id: "\<not> has_loading ms \<Longrightarrow> remove_loading ms = ms"
  by (simp add: has_loading_def remove_loading_def)

lemma remove_loading_subset: "set (remove_loading ms) \<subseteq> set ms"
  by (auto simp: remove_loading_def)

lemma sorted_remove_loading:
  "sorted_wrt (<) (map msg_id ms) \<Longrightarrow> sorted_wrt (<) (map msg_id (remove_loading ms))"
  unfolding remove_loading_def by (induction ms) auto

lemma start_send_rejected:
  "trim (inputValue (page s)) = [] \<or> sending (page s) \<Longrightarrow> start_send s = s"
  by (simp add: start_send_def begin_None)

lemma start_send_accepted:
  "trim (inputValue (page s)) \<noteq> [] \<Longrightarrow> \<not> sending (page s) \<Longrightarrow>
   start_send s =
     s\<lparr>page := (page s)\<lparr>messages := messages (page s) @
            [UserMsg (messageId (page s) + 1) (trim (inputValue (page s))),
             LoadingMsg (messageId (page s) + 2)],
          inputValue := [], sending := True, messageId := messageId (page s) + 2,
          scrollToView := ascii ''msg-'' @ dec (messageId (page s) + 2)\<rparr>,
       inflight := inflight s + 1,
       requests := requests s @ [trim (inputValue (page s))],
       history := history s @
            [UserMsg (messageId (page s) + 1) (trim (inputValue (page s))),
             LoadingMsg (messageId (page s) + 2)]\<rparr>"
  by (simp add: start_send_def begin_Some)

lemma inv_initial: "session_inv initial_session"
  by (simp add: session_inv_def initial_session_def initial_data_def has_loading_def)

lemma inv_typed: "session_inv s \<Longrightarrow> session_inv (s\<lparr>page := (page s)\<lparr>inputValue := v\<rparr>\<rparr>)"
  by (simp add: session_inv_def)

lemma inv_start_send:
  assumes "session_inv s"
  shows "session_inv (start_send s)"
proof (cases "trim (inputValue (page s)) = [] \<or> sending (page s)")
  case True
  then show ?thesis
    using assms by (simp add: start_send_rejected)
next
  case False
  then have a: "trim (inputValue (page s)) \<noteq> []" and b: "\<not> sending (page s)"
    by simp_all
  from assms have bound: "\<forall>m \<in> set (history s). msg_id m \<le> messageId (page s)"
    and sh: "sorted_wrt (<) (map msg_id (history s))"
    and sm: "sorted_wrt (<) (map msg_id (messages (page s)))"
    and sub: "set (messages (page s)) \<subseteq> set (history s)"
    and fl: "inflight s = (if sending (page s) then 1 else 0)"
    by (simp_all add: session_inv_def)
  from bound sub have bound': "\<forall>m \<in> set (messages (page s)). msg_id m \<le> messageId (page s)"
    by blast
  show ?thesis
    unfolding start_send_accepted [OF a b] session_inv_def
    using bound bound' sh sm sub fl b
    by (auto simp: sorted_wrt_append le_imp_less_Suc)
qed

lemma settle_step:
  assumes "inflight s \<noteq> 0"
  shows "\<exists>t d2. step apiBase s (Settled r net) =
           s\<lparr>page := d2\<lparr>sending := False\<rparr>, inflight := inflight s - 1,
             history := history s @ [t]\<rparr> \<and>
         messages d2 = remove_loading (messages (page s)) @ [t] \<and>
         messageId d2 = messageId (page s) + 1 \<and>
         msg_id t = messageId (page s) + 1 \<and> \<not> isUser t \<and>
         (msg_type t = Some Text \<or> msg_type t = Some Diagnosis)"
proof -
  from resume_shape [of apiBase net "callChatAPI r" "page s"] obtain t d2 where
    tr: "sendMessage_resume apiBase net (callChatAPI r) (page s) = [d2, d2\<lparr>sending := False\<rparr>]"
    and m: "messages d2 = remove_loading (messages (page s)) @ [t]"
    and rest: "messageId d2 = messageId (page s) + 1" "msg_id t = messageId (page s) + 1"
      "\<not> isUser t" "msg_type t = Some Text \<or> msg_type t = Some Diagnosis"
    by blast
  from assms tr m have "step apiBase s (Settled r net) =
           s\<lparr>page := d2\<lparr>sending := False\<rparr>, inflight := inflight s - 1,
             history := history s @ [t]\<rparr>"
    by (simp add: Let_def)
  with m rest show ?thesis
    by blast
qed

lemma inv_settled:
  assumes "session_inv s"
  shows "session_inv (step apiBase s (Settled r net))"
proof (cases "inflight s = 0")
  case True
  then show ?thesis
    using assms by simp
next
  case False
  from settle_step [OF False, of apiBase r net] obtain t d2 where
    st: "step apiBase s (Settled r net) =
           s\<lparr>page := d2\<lparr>sending := False\<rparr>, inflight := inflight s - 1,
             history := history s @ [t]\<rparr>"
    and m: "messages d2 = remove_loading (messages (page s)) @ [t]"
    and i: "messageId d2 = messageId (page s) + 1"
    and ti: "msg_id t = messageId (page s) + 1"
    and ty: "msg_type t = Some Text \<or> msg_type t = Some Diagnosis"
    by blast
  from assms have bound: "\<forall>m \<in> set (history s). msg_id m \<le> messageId (page s)"
    and sh: "sorted_wrt (<) (map msg_id (history s))"
    and sm: "sorted_wrt (<) (map msg_id (messages (page s)))"
    and sub: "set (messages (page s)) \<subseteq> set (history s)"
    and fl: "inflight s = (if sending (page s) then 1 else 0)"
    by (simp_all add: session_inv_def)
  from ty have nl: "msg_type t \<noteq> Some Loading"
    by auto
  from sub remove_loading_subset [of "messages (page s)"]
  have sub': "set (remove_loading (messages (page s))) \<subseteq> set (history s)"
    by blast
  with bound have bound': "\<forall>m \<in> set (remove_loading (messages (page s))). msg_id m \<le> messageId (page s)"
    by blast
  from False fl have one: "inflight s = 1"
    by (simp split: if_splits)
  show ?thesis
    unfolding st session_inv_def
    using bound bound' sh sorted_remove_loading [OF sm] sub' one nl
      not_has_loading_answer [OF nl, of "messages (page s)"]
    by (auto simp: m i ti sorted_wrt_append le_imp_less_Suc)
qed

lemma inv_step:
  assumes "session_inv s"
  shows "session_inv (step apiBase s ev)"
proof (cases ev)
  case (InputChange v)
  from inv_typed [OF assms, of v] show ?thesis
    unfolding InputChange by (simp add: onInputChange_def)
next
  case (QuickTap q)
  from inv_start_send [OF inv_typed [OF assms, of q]] show ?thesis
    unfolding QuickTap by simp
next
  case SendTap
  from inv_start_send [OF assms] show ?thesis
    unfolding SendTap by simp
next
  case (Settled r net)
  show ?thesis
    unfolding Settled by (rule inv_settled [OF assms])
qed

lemma inv_foldl: "session_inv s \<Longrightarrow> session_inv (foldl (step apiBase) s evs)"
  by (induction evs arbitrary: s) (simp_all add: inv_step)

lemma inv_run: "session_inv (run apiBase evs)"
  by (simp add: run_def inv_foldl inv_initial)

lemma sorted_wrt_less_distinct: "sorted_wrt (<) (xs :: nat list) \<Longrightarrow> distinct xs"
  by (induction xs) auto

text \<open>
  The history is the record of what the handlers appended: each event extends it
  by exactly the messages that the event added to the log.
\<close>

lemma history_records:
  "\<exists>new. history (step apiBase s ev) = history s @ new \<and>
     (messages (page (step apiBase s ev)) = messages (page s) @ new \<or>
      messages (page (step apiBase s ev)) = remove_loading (messages (page s)) @ new)"
proof (cases ev)
  case (InputChange v)
  then show ?thesis
    by (simp add: onInputChange_def)
next
  case (QuickTap q)
  show ?thesis
  proof (cases "trim q = [] \<or> sending (page s)")
    case True
    then show ?thesis
      unfolding QuickTap by (simp add: start_send_rejected)
  next
    case False
    then show ?thesis
      unfolding QuickTap by (simp add: start_send_accepted)
  qed
next
  case SendTap
  show ?thesis
  proof (cases "trim (inputValue (page s)) = [] \<or> sending (page s)")
    case True
    then show ?thesis
      unfolding SendTap by (simp add: start_send_rejected)
  next
    case False
    then show ?thesis
      unfolding SendTap by (simp add: start_send_accepted)
  qed
next
  case (Settled r net)
  show ?thesis
  proof (cases "inflight s = 0")
    case True
    then show ?thesis
      unfolding Settled by simp
  next
    case False
    from settle_step [OF False, of apiBase r net] show ?thesis
      unfolding Settled by auto
  qed
qed

lemma demo_run_history:
  "map msg_id (history (run demo_base demo_events)) = [1, 2, 3, 4, 5, 6]"
  by (simp add: run_def demo_events_def initial_session_def initial_data_def start_send_def
      sendMessage_begin_def onInputChange_def trim_def is_white_space_def ascii_def Let_def
      sendMessage_resume_def try_block_def catch_block_def callChatAPI_def remove_loading_def
      demo_llm_def)

text \<open>
  C9. In every session the ids of the messages ever appended (user, loading and
  answers, the loading messages that were removed included) are strictly
  increasing in the order of appending, hence never reused; every message of the
  log is one of them, and the counter bounds them all.
\<close>

theorem ids_strictly_increasing:
  "sorted_wrt (<) (map msg_id (history (run apiBase evs))) \<and>
   distinct (map msg_id (history (run apiBase evs))) \<and>
   set (messages (page (run apiBase evs))) \<subseteq> set (history (run apiBase evs)) \<and>
   sorted_wrt (<) (map msg_id (messages (page (run apiBase evs)))) \<and>
   (\<forall>m \<in> set (history (run apiBase evs)). msg_id m \<le> messageId (page (run apiBase evs)))"
  using inv_run [of apiBase evs] sorted_wrt_less_distinct [of "map msg_id (history (run apiBase evs))"]
  by (simp add: session_inv_def)

theorem ids_strictly_increasing_witness:
  "map msg_id (history (run demo_base demo_events)) = [1, 2, 3, 4, 5, 6] \<and>
   sorted_wrt (<) (map msg_id (history (run demo_base demo_events))) \<and>
   distinct (map msg_id (history (run demo_base demo_events)))"
  using ids_strictly_increasing [of demo_base demo_events] demo_run_history
  by blast

section \<open>The loading bracket\<close>

lemma apply_append_pair: "apply_mutations [Append u, Append l] log = log @ [u, l]"
  by (simp add: apply_mutations_def)

lemma apply_remove_append:
  "apply_mutations [RemoveLoading, Append t] log = remove_loading log @ [t]"
  by (simp add: apply_mutations_def remove_loading_def)

lemma demo_run_typed: "page (run demo_base [InputChange (ascii ''a'')]) = demo_typed"
  by (simp add: run_def initial_session_def demo_typed_def)

text \<open>
  C1. For every submission accepted in a session, and every way the diagnosis
  call settles (rejected, soft failure, success, exception), the arrays given to
  \<^verbatim>\<open>setData\<close> are the log after: append the user message, append the loading
  message; then remove the loading message by kind, append one answer \<open>t\<close>.
  Nothing else of the log changes: it ends as the old log, the user message and
  \<open>t\<close>. The page after the first \<^verbatim>\<open>setData\<close> shows the loading message and
  not \<open>t\<close>; every page after that shows \<open>t\<close> and no loading message.
\<close>

theorem loading_bracket:
  assumes "sendMessage_begin (page (run apiBase evs :: 'a session)) = Some (msg, d1)"
  shows "let d = page (run apiBase evs);
             u = UserMsg (messageId d + 1) (trim (inputValue d));
             l = LoadingMsg (messageId d + 2);
             tr = sendMessage_resume apiBase net awaited (onInputChange typed d1);
             t = last (messages (last tr))
         in messages d1 = apply_mutations [Append u, Append l] (messages d) \<and>
            map messages tr =
              [apply_mutations [RemoveLoading, Append t] (messages d1),
               apply_mutations [RemoveLoading, Append t] (messages d1)] \<and>
            apply_mutations [RemoveLoading, Append t] (messages d1) = messages d @ [u, t] \<and>
            \<not> isUser t \<and> (msg_type t = Some Text \<or> msg_type t = Some Diagnosis) \<and>
            has_loading (messages d1) \<and> t \<notin> set (messages d1) \<and>
            (\<forall>d' \<in> set tr. \<not> has_loading (messages d') \<and> t \<in> set (messages d'))"
proof -
  define d where "d = page (run apiBase evs)"
  define u :: "'a message" where "u = UserMsg (messageId d + 1) (trim (inputValue d))"
  define l :: "'a message" where "l = LoadingMsg (messageId d + 2)"
  define tr where "tr = sendMessage_resume apiBase net awaited (onInputChange typed d1)"
  define t where "t = last (messages (last tr))"
  from assms have b: "sendMessage_begin d = Some (msg, d1)"
    by (simp add: d_def)
  from inv_run [of apiBase evs] have bound: "\<forall>m \<in> set (messages d). msg_id m \<le> messageId d"
    and idle: "\<not> sending d \<longrightarrow> \<not> has_loading (messages d)"
    unfolding session_inv_def d_def by blast+
  from begin_SomeD [OF b] have ns: "\<not> sending d" and msg: "msg = trim (inputValue d)"
    and d1: "d1 = d\<lparr>messages := messages d @ [UserMsg (messageId d + 1) msg, LoadingMsg (messageId d + 2)],
         inputValue := [], sending := True, messageId := messageId d + 2,
         scrollToView := ascii ''msg-'' @ dec (messageId d + 2)\<rparr>"
    by blast+
  from d1 msg have m1: "messages d1 = messages d @ [u, l]" and i1: "messageId d1 = messageId d + 2"
    by (simp_all add: u_def l_def)
  from idle ns have nol: "\<not> has_loading (messages d)"
    by simp
  have rl: "remove_loading (messages d1) = messages d @ [u]"
    unfolding m1 remove_loading_append remove_loading_id [OF nol]
    by (simp add: remove_loading_def u_def l_def)
  from resume_shape [of apiBase net awaited "onInputChange typed d1"] obtain t' d2 where
    tr': "tr = [d2, d2\<lparr>sending := False\<rparr>]"
    and m2: "messages d2 = remove_loading (messages (onInputChange typed d1)) @ [t']"
    and ti: "msg_id t' = messageId (onInputChange typed d1) + 1"
    and tu: "\<not> isUser t'"
    and ty: "msg_type t' = Some Text \<or> msg_type t' = Some Diagnosis"
    unfolding tr_def by blast
  from m2 have m2': "messages d2 = remove_loading (messages d1) @ [t']"
    by (simp add: onInputChange_def)
  from tr' m2' have tt: "t = t'"
    by (simp add: t_def)
  from ti i1 have ti': "msg_id t = messageId d + 3"
    by (simp add: tt onInputChange_def)
  from ty have nl: "msg_type t \<noteq> Some Loading"
    by (auto simp: tt)
  have c1: "messages d1 = apply_mutations [Append u, Append l] (messages d)"
    by (simp add: m1 apply_append_pair)
  have c2: "map messages tr =
              [apply_mutations [RemoveLoading, Append t] (messages d1),
               apply_mutations [RemoveLoading, Append t] (messages d1)]"
    by (simp add: tr' m2' tt apply_remove_append)
  have c3: "apply_mutations [RemoveLoading, Append t] (messages d1) = messages d @ [u, t]"
    by (simp add: apply_remove_append rl)
  have c4: "\<not> isUser t \<and> (msg_type t = Some Text \<or> msg_type t = Some Diagnosis)"
    using tu ty by (simp add: tt)
  have c5: "has_loading (messages d1)"
    by (simp add: m1 has_loading_def l_def)
  have c6: "t \<notin> set (messages d1)"
  proof
    assume "t \<in> set (messages d1)"
    then have "t \<in> set (messages d) \<or> t = u \<or> t = l"
      by (auto simp: m1)
    with bound ti' show False
      by (auto simp: u_def l_def)
  qed
  have c7: "\<forall>d' \<in> set tr. \<not> has_loading (messages d') \<and> t \<in> set (messages d')"
    using not_has_loading_answer [OF nl, of "messages d1"]
    by (simp add: tr' m2' tt)
  from c1 c2 c3 c4 c5 c6 c7 show ?thesis
    unfolding Let_def d_def [symmetric] u_def [symmetric] l_def [symmetric]
      tr_def [symmetric] t_def [symmetric]
    by blast
qed

theorem loading_bracket_witness:
  "sendMessage_begin (page (run demo_base [InputChange (ascii ''a'')])) =
     Some (ascii ''a'', demo_pending) \<and>
   map messages (demo_pending #
     sendMessage_resume demo_base demo_images (Inl RequestFailed) (onInputChange [] demo_pending)) =
     [[UserMsg 1 (ascii ''a''), LoadingMsg 2],
      [UserMsg 1 (ascii ''a''), TextMsg 3 cannot_connect_text],
      [UserMsg 1 (ascii ''a''), TextMsg 3 cannot_connect_text]]"
proof -
  have h: "sendMessage_begin (page (run demo_base [InputChange (ascii ''a'')])) =
     Some (ascii ''a'', demo_pending)"
    by (simp add: demo_run_typed demo_begin)
  have p: "onInputChange [] demo_pending = demo_pending"
    by (simp add: onInputChange_def demo_pending_def)
  have res: "map messages (demo_pending #
     sendMessage_resume demo_base demo_images (Inl RequestFailed) (onInputChange [] demo_pending)) =
     [[UserMsg 1 (ascii ''a''), LoadingMsg 2],
      [UserMsg 1 (ascii ''a''), TextMsg 3 cannot_connect_text],
      [UserMsg 1 (ascii ''a''), TextMsg 3 cannot_connect_text]]"
    by (simp add: p resume_rejected demo_remove_loading) (simp add: demo_pending_def)
  from loading_bracket [OF h, of demo_images "Inl RequestFailed" "[]"] h res
  show ?thesis
    by blast
qed

end
